(* ===== verification/Prelude.thy ===== *)
theory Prelude
  imports Complex_Main "HOL-Library.Word" "HOL-Library.Stream"
    "HOL-Library.State_Monad" "HOL-Library.Multiset"
begin

text \<open>
  Shared vocabulary of the development: the Python exceptions the dashboard can raise,
  the type of a Python computation over a state (it may raise, and it may run forever),
  the pseudo-random source as a stream of 32-bit generator outputs, and list facts
  the components share (order-preserving de-duplication as pandas' \<open>unique()\<close>, the
  stable descending sort behind \<open>sort_values(ascending=False)\<close>).
\<close>

named_theorems py_simps "evaluation rules of the Python computation type"

section \<open>Python exceptions and computations\<close>

datatype py_error = IndexError | KeyError | TypeError | AttributeError

text \<open>
  A computation over a state \<open>'s\<close>: \<open>None\<close> is a computation that never returns,
  \<open>Some (Inl e, s')\<close> raised \<open>e\<close> in state \<open>s'\<close> (mutations made before the raise
  persist, as in Python), \<open>Some (Inr x, s')\<close> returned \<open>x\<close>.
\<close>

type_synonym ('s, 'a) py = "'s \<Rightarrow> ((py_error + 'a) \<times> 's) option"

definition py_return :: "'a \<Rightarrow> ('s, 'a) py" where
  "py_return x = (\<lambda>s. Some (Inr x, s))"

definition py_raise :: "py_error \<Rightarrow> ('s, 'a) py" where
  "py_raise e = (\<lambda>s. Some (Inl e, s))"

definition py_bind :: "('s, 'a) py \<Rightarrow> ('a \<Rightarrow> ('s, 'b) py) \<Rightarrow> ('s, 'b) py" where
  "py_bind m f = (\<lambda>s. case m s of
      None \<Rightarrow> None
    | Some (Inl e, s') \<Rightarrow> Some (Inl e, s')
    | Some (Inr x, s') \<Rightarrow> f x s')"

text \<open>A total, non-raising step (a \<open>State_Monad\<close> action) as a Python computation.\<close>

definition py_state :: "('s, 'a) state \<Rightarrow> ('s, 'a) py" where
  "py_state m = (\<lambda>s. case run_state m s of (x, s') \<Rightarrow> Some (Inr x, s'))"

text \<open>Python's \<open>xs[0]\<close> (pandas' \<open>.iloc[0]\<close>): IndexError on an empty sequence.\<close>

definition py_first :: "'a list \<Rightarrow> py_error + 'a" where
  "py_first xs = (case xs of [] \<Rightarrow> Inl IndexError | x # _ \<Rightarrow> Inr x)"

section \<open>The pseudo-random source\<close>

text \<open>
  CPython's \<open>random\<close> module draws every value from \<open>genrand_uint32\<close>, the next
  32-bit output of its Mersenne Twister. The model takes the sequence of those outputs as
  an arbitrary infinite stream: a generator state is the stream of outputs still to come.
\<close>

type_synonym rng = "32 word stream"

section \<open>Order-preserving de-duplication\<close>

text \<open>
  pandas' \<open>Series.unique()\<close> returns the distinct values in order of first
  appearance (a hash table of the values seen so far).
\<close>

primrec unique_from :: "'a list \<Rightarrow> 'a list \<Rightarrow> 'a list" where
  "unique_from seen [] = []"
| "unique_from seen (x # xs) =
     (if x \<in> set seen then unique_from seen xs else x # unique_from (x # seen) xs)"

definition py_unique :: "'a list \<Rightarrow> 'a list" where
  "py_unique xs = unique_from [] xs"

section \<open>Lemmas\<close>

lemma py_bind_return [simp, py_simps]: "py_bind (py_return x) f = f x"
  by (simp add: py_bind_def py_return_def)

lemma py_bind_raise [simp, py_simps]: "py_bind (py_raise e) f = py_raise e"
  by (simp add: py_bind_def py_raise_def)

lemma py_bind_assoc [py_simps]: "py_bind (py_bind m f) g = py_bind m (\<lambda>x. py_bind (f x) g)"
  by (rule ext) (simp add: py_bind_def split: option.splits sum.splits)

lemma py_bind_apply [py_simps]:
  "py_bind m f s = (case m s of None \<Rightarrow> None
     | Some (Inl e, s') \<Rightarrow> Some (Inl e, s') | Some (Inr x, s') \<Rightarrow> f x s')"
  by (simp add: py_bind_def)

lemma py_return_apply [simp, py_simps]: "py_return x s = Some (Inr x, s)"
  by (simp add: py_return_def)

lemma py_raise_apply [simp, py_simps]: "py_raise e s = Some (Inl e, s)"
  by (simp add: py_raise_def)

lemma py_state_apply [py_simps]:
  "py_state m s = Some (Inr (fst (run_state m s)), snd (run_state m s))"
  by (simp add: py_state_def split: prod.splits)

lemma py_first_Cons [simp]: "py_first (x # xs) = Inr x"
  and py_first_Nil [simp]: "py_first [] = Inl IndexError"
  by (simp_all add: py_first_def)

text \<open>A traversal whose every step relates its input to its output relates the lists.\<close>

lemma traverse_list_all2:
  assumes "\<And>x s. R x (fst (run_state (f x) s))"
  shows "list_all2 R xs (fst (run_state (traverse_list f xs) s))"
proof (induction xs arbitrary: s)
  case Nil
  then show ?case by simp
next
  case (Cons x xs)
  then show ?case using assms by (simp add: split_beta)
qed

lemma set_unique_from: "set (unique_from seen xs) = set xs - set seen"
  by (induction xs arbitrary: seen) auto

lemma distinct_unique_from: "distinct (unique_from seen xs)"
  by (induction xs arbitrary: seen) (auto simp: set_unique_from)

lemma remdups_snoc: "remdups (xs @ [x]) = remdups (filter (\<lambda>y. y \<noteq> x) xs) @ [x]"
  by (induction xs) auto

lemma unique_from_rev_remdups:
  "unique_from seen xs = rev (remdups (rev (filter (\<lambda>x. x \<notin> set seen) xs)))"
proof (induction xs arbitrary: seen)
  case Nil
  then show ?case by simp
next
  case (Cons x xs)
  have "filter (\<lambda>y. y \<notin> set (x # seen)) xs
      = filter (\<lambda>y. y \<noteq> x) (filter (\<lambda>y. y \<notin> set seen) xs)"
    by (simp add: conj_commute)
  then have "unique_from (x # seen) xs
      = rev (remdups (filter (\<lambda>y. y \<noteq> x) (rev (filter (\<lambda>y. y \<notin> set seen) xs))))"
    by (simp only: Cons.IH rev_filter)
  then show ?case
    using Cons.IH [of seen] by (simp add: remdups_snoc)
qed

lemma py_unique_first_occurrence: "py_unique xs = rev (remdups (rev xs))"
  by (simp add: py_unique_def unique_from_rev_remdups)

end
