(* ===== verification/PyRandom.thy ===== *)
theory PyRandom
  imports Prelude
begin

text \<open>
  The parts of CPython's \<open>random\<close> module the dashboard calls (\<open>Lib/random.py\<close>
  and \<open>Modules/_randommodule.c\<close>), over the stream of 32-bit generator outputs:
  \<open>random()\<close> (53 bits from two outputs), \<open>getrandbits(k)\<close>, the rejection loop
  \<open>_randbelow\<close>, and on top of them \<open>uniform\<close>, \<open>choice\<close> and \<open>choices\<close>.
  Draws that always return are \<open>State_Monad\<close> actions; \<open>_randbelow\<close>, a loop that
  runs until a draw is small enough, is a \<open>partial_function (option)\<close>, and
  \<open>choice\<close>, which also raises on an empty sequence, is a \<open>py\<close> computation.
\<close>

section \<open>Generator outputs\<close>

definition genrand_uint32 :: "(rng, 32 word) state" where
  "genrand_uint32 = State (\<lambda>s. (shd s, stl s))"

text \<open>\<open>random_random\<close>: \<open>a = genrand_uint32() >> 5\<close>, \<open>b = genrand_uint32() >> 6\<close>,
  \<open>(a * 67108864.0 + b) * (1.0 / 9007199254740992.0)\<close>; the quotient of a 53-bit
  integer by \<open>2^53\<close>, exact in a double.\<close>

definition random_random :: "(rng, real) state" where
  "random_random = do {
     a \<leftarrow> genrand_uint32;
     b \<leftarrow> genrand_uint32;
     State_Monad.return
       ((real (unat (drop_bit 5 a)) * 67108864 + real (unat (drop_bit 6 b))) / 9007199254740992)
   }"

text \<open>\<open>getrandbits(k)\<close>: 0 without a draw for \<open>k = 0\<close>, the top \<open>k\<close> bits of one
  output for \<open>k \<le> 32\<close>, otherwise 32-bit outputs filled least significant first, the
  last one cut to the bits that remain.\<close>

fun getrandbits :: "nat \<Rightarrow> (rng, nat) state" where
  "getrandbits k =
     (if k = 0 then State_Monad.return 0
      else if k \<le> 32 then do {
        w \<leftarrow> genrand_uint32;
        State_Monad.return (unat (drop_bit (32 - k) w))
      }
      else do {
        w \<leftarrow> genrand_uint32;
        hi \<leftarrow> getrandbits (k - 32);
        State_Monad.return (unat w + 2 ^ 32 * hi)
      })"

declare getrandbits.simps [simp del]

text \<open>Python's \<open>int.bit_length()\<close>.\<close>

fun bit_length :: "nat \<Rightarrow> nat" where
  "bit_length n = (if n = 0 then 0 else Suc (bit_length (n div 2)))"

declare bit_length.simps [simp del]

text \<open>\<open>_randbelow_with_getrandbits(n)\<close>:
  \<^verbatim>\<open>k = n.bit_length(); r = getrandbits(k)
  while r >= n: r = getrandbits(k)
  return r\<close>
  The loop ends only when a draw falls below \<open>n\<close>; \<open>None\<close> is the loop that never ends.\<close>

partial_function (option) randbelow_loop :: "nat \<Rightarrow> nat \<Rightarrow> rng \<Rightarrow> (nat \<times> rng) option" where
  "randbelow_loop n k s =
     (case run_state (getrandbits k) s of
        (r, s') \<Rightarrow> if r < n then Some (r, s') else randbelow_loop n k s')"

definition randbelow :: "nat \<Rightarrow> rng \<Rightarrow> (nat \<times> rng) option" where
  "randbelow n s = randbelow_loop n (bit_length n) s"

text \<open>\<open>uniform(a, b) = a + (b - a) * random()\<close>.\<close>

definition uniform :: "real \<Rightarrow> real \<Rightarrow> (rng, real) state" where
  "uniform a b = do { u \<leftarrow> random_random; State_Monad.return (a + (b - a) * u) }"

text \<open>\<open>choice(seq)\<close>: IndexError on an empty sequence, else \<open>seq[_randbelow(len(seq))]\<close>.\<close>

definition choice :: "'a list \<Rightarrow> (rng, 'a) py" where
  "choice seq = (\<lambda>s.
     if length seq = 0 then Some (Inl IndexError, s)
     else map_option (\<lambda>(i, s'). (Inr (seq ! i), s')) (randbelow (length seq) s))"

text \<open>\<open>choices(population, k=k)\<close> without weights:
  \<open>[population[floor(random() * n)] for i in _repeat(None, k)]\<close>, \<open>n = len(population)\<close>.\<close>

definition choose_index :: "'a list \<Rightarrow> (rng, 'a) py" where
  "choose_index population = py_bind (py_state random_random) (\<lambda>u.
     let i = nat \<lfloor>u * real (length population)\<rfloor> in
     if i < length population then py_return (population ! i) else py_raise IndexError)"

primrec py_repeat :: "nat \<Rightarrow> ('s, 'a) py \<Rightarrow> ('s, 'a list) py" where
  "py_repeat 0 m = py_return []"
| "py_repeat (Suc k) m = py_bind m (\<lambda>x. py_bind (py_repeat k m) (\<lambda>xs. py_return (x # xs)))"

definition choices :: "'a list \<Rightarrow> nat \<Rightarrow> (rng, 'a list) py" where
  "choices population k = py_repeat k (choose_index population)"


section \<open>Properties of the draws\<close>

lemma run_state_genrand [simp]: "run_state genrand_uint32 s = (shd s, stl s)"
  by (simp add: genrand_uint32_def)

lemma div_pow2_less: "x < (2::nat) ^ n \<Longrightarrow> x div 2 ^ m < 2 ^ (n - m)"
proof (cases "m \<le> n")
  case True
  assume "x < 2 ^ n"
  with True have "x < 2 ^ (n - m) * 2 ^ m"
    by (simp add: power_add [symmetric])
  then show ?thesis by (rule less_mult_imp_div_less)
next
  case False
  assume "x < 2 ^ n"
  also from False have "(2::nat) ^ n \<le> 2 ^ m" by simp
  finally show ?thesis by simp
qed

lemma unat_drop_bit_32: "unat (drop_bit m (w :: 32 word)) < 2 ^ (32 - m)"
proof -
  have "unat (drop_bit m w) = unat w div 2 ^ m"
    unfolding unat_drop_bit_eq by (simp add: drop_bit_eq_div)
  moreover have "unat w < 2 ^ 32"
    using unsigned_less [of w] by simp
  ultimately show ?thesis by (simp add: div_pow2_less)
qed

lemma run_state_random_random [py_simps]:
  "run_state random_random s =
     ((real (unat (drop_bit 5 (shd s))) * 67108864 + real (unat (drop_bit 6 (shd (stl s))))) / 9007199254740992,
      stl (stl s))"
  by (simp add: random_random_def)

lemma random_random_draws [py_simps]: "snd (run_state random_random s) = stl (stl s)"
  by (simp add: run_state_random_random)

lemma random_bits_bound:
  fixes s :: rng
  shows "unat (drop_bit 5 (shd s)) * 67108864 + unat (drop_bit 6 (shd (stl s))) < 9007199254740992"
proof -
  define a where "a = unat (drop_bit 5 (shd s))"
  define b where "b = unat (drop_bit 6 (shd (stl s)))"
  have "a < 134217728" using unat_drop_bit_32 [of 5 "shd s"] by (simp add: a_def)
  moreover have "b < 67108864" using unat_drop_bit_32 [of 6 "shd (stl s)"] by (simp add: b_def)
  ultimately have "a * 67108864 + b < 9007199254740992" by linarith
  then show ?thesis by (simp add: a_def b_def)
qed

lemma random_random_range:
  "0 \<le> fst (run_state random_random s) \<and> fst (run_state random_random s) < 1"
proof -
  define k where "k = unat (drop_bit 5 (shd s)) * 67108864 + unat (drop_bit 6 (shd (stl s)))"
  have "k < 9007199254740992" using random_bits_bound [of s] by (simp add: k_def)
  then have "real k < 9007199254740992" by simp
  moreover have "fst (run_state random_random s) = real k / 9007199254740992"
    by (simp add: run_state_random_random k_def)
  ultimately show ?thesis by simp
qed

text \<open>\<open>random()\<close> returns a multiple of \<open>2^-53\<close> in \<open>[0, 1)\<close>: the
  53-bit integer built from the top 27 bits of one output and the top 26 bits of the
  next, divided by \<open>2^53\<close>.\<close>

theorem random_random_grid:
  "\<exists>k::nat. k < 2 ^ 53 \<and> fst (run_state random_random s) = real k / 2 ^ 53"
proof -
  define k where "k = unat (drop_bit 5 (shd s)) * 67108864 + unat (drop_bit 6 (shd (stl s)))"
  have "k < 2 ^ 53" using random_bits_bound [of s] by (simp add: k_def)
  moreover have "fst (run_state random_random s) = real k / 2 ^ 53"
    by (simp add: run_state_random_random k_def)
  ultimately show ?thesis by blast
qed

text \<open>\<open>getrandbits(k)\<close> returns fewer than \<open>k\<close> bits, for every \<open>k\<close>,
  also where it assembles several 32-bit outputs.\<close>

theorem getrandbits_bound: "fst (run_state (getrandbits k) s) < 2 ^ k"
proof (induction k arbitrary: s rule: getrandbits.induct)
  case (1 k)
  show ?case
  proof (cases "k = 0 \<or> k \<le> 32")
    case True
    then show ?thesis
      using unat_drop_bit_32 [of "32 - k" "shd s"] by (auto simp: getrandbits.simps [of k])
  next
    case False
    let ?hi = "fst (run_state (getrandbits (k - 32)) (stl s))"
    have hi: "?hi < 2 ^ (k - 32)" using "1.IH" False by simp
    have w: "unat (shd s) < 2 ^ 32" using unsigned_less [of "shd s"] by simp
    have "unat (shd s) + 2 ^ 32 * ?hi < 2 ^ 32 + 2 ^ 32 * ?hi" using w by simp
    also have "\<dots> \<le> 2 ^ 32 * 2 ^ (k - 32)" using hi
      by (metis add.commute mult_Suc_right mult_le_mono2 Suc_leI)
    also have "\<dots> = 2 ^ k"
      using False by (metis le_add_diff_inverse nat_le_linear power_add)
    finally show ?thesis using False by (simp add: getrandbits.simps [of k] split_beta)
  qed
qed

lemma getrandbits_draws: "snd (run_state (getrandbits k) s) = sdrop ((k + 31) div 32) s"
proof (induction k arbitrary: s rule: getrandbits.induct)
  case (1 k)
  show ?case
  proof (cases "k = 0 \<or> k \<le> 32")
    case True
    then have "k = 0 \<or> (k + 31) div 32 = 1" by auto
    with True show ?thesis by (auto simp: getrandbits.simps [of k])
  next
    case False
    define j where "j = k - 32"
    with False have k: "k = 32 + j" by simp
    then have "(k + 31) div 32 = Suc ((j + 31) div 32)" by simp
    with False "1.IH" show ?thesis
      unfolding k by (simp add: getrandbits.simps [of "32 + j"] split_beta)
  qed
qed

lemma bit_length_bound: "n < 2 ^ bit_length n"
proof (induction n rule: bit_length.induct)
  case (1 n)
  then show ?case by (cases "n = 0") (simp_all add: bit_length.simps [of n])
qed

lemma bit_length_le: "n < 2 ^ m \<Longrightarrow> bit_length n \<le> m"
proof (induction n arbitrary: m rule: bit_length.induct)
  case (1 n)
  show ?case
  proof (cases "n = 0")
    case True
    then show ?thesis by (simp add: bit_length.simps [of 0])
  next
    case False
    with "1.prems" obtain m' where m: "m = Suc m'" by (cases m) auto
    with "1.prems" have "n div 2 < 2 ^ m'" by simp
    with "1.IH" False m show ?thesis by (simp add: bit_length.simps [of n])
  qed
qed

lemma bit_length_pos: "0 < n \<Longrightarrow> 0 < bit_length n"
  by (simp add: bit_length.simps [of n])

text \<open>One round of the loop on a word that is small enough returns it; otherwise the
  loop continues on the rest of the stream.\<close>

lemma randbelow_loop_step:
  "0 < k \<Longrightarrow> k \<le> 32 \<Longrightarrow> randbelow_loop n k s =
     (if unat (drop_bit (32 - k) (shd s)) < n then Some (unat (drop_bit (32 - k) (shd s)), stl s)
      else randbelow_loop n k (stl s))"
  by (subst randbelow_loop.simps) (simp add: getrandbits.simps [of k])

lemma randbelow_loop_result:
  assumes ret: "randbelow_loop n k s = Some res"
  shows "fst res < n"
proof (rule randbelow_loop.raw_induct [where P = "\<lambda>n k s res. fst res < n", OF _ ret])
  fix f :: "nat \<Rightarrow> nat \<Rightarrow> rng \<Rightarrow> (nat \<times> rng) option" and n k s res
  assume IH: "\<And>n k s res. f n k s = Some res \<Longrightarrow> fst res < n"
    and eq: "(case run_state (getrandbits k) s of
               (r, s') \<Rightarrow> if r < n then Some (r, s') else f n k s') = Some res"
  obtain r s' where rs: "run_state (getrandbits k) s = (r, s')"
    by (cases "run_state (getrandbits k) s")
  show "fst res < n"
    using eq by (auto simp: rs split: if_splits dest: IH)
qed

text \<open>\<open>_randbelow(0)\<close> never returns: \<open>getrandbits(0)\<close> is 0 and the
  loop waits for a draw below 0. This is why \<open>choice\<close> checks for an empty
  sequence before it calls it.\<close>

theorem randbelow_zero_diverges: "randbelow 0 s = None"
  using randbelow_loop_result [of 0 "bit_length 0" s] by (cases "randbelow 0 s") (auto simp: randbelow_def)

lemma randbelow_loop_returns:
  assumes "0 < k" "k \<le> 32" "unat (drop_bit (32 - k) (snth s i)) < n"
  shows "\<exists>r s'. randbelow_loop n k s = Some (r, s')"
  using assms(3)
proof (induction i arbitrary: s)
  case 0
  then show ?case by (simp add: randbelow_loop_step [OF assms(1,2)])
next
  case (Suc i)
  then show ?case by (simp add: randbelow_loop_step [OF assms(1,2), of n s])
qed

lemma randbelow_result: "randbelow n s = Some (r, s') \<Longrightarrow> r < n"
  using randbelow_loop_result by (fastforce simp: randbelow_def)

text \<open>The loop only consumes outputs: it returns a suffix of the stream it started on.\<close>

lemma randbelow_loop_draws:
  assumes ret: "randbelow_loop n k s = Some res"
  shows "\<exists>j. snd res = sdrop j s"
proof (rule randbelow_loop.raw_induct [where P = "\<lambda>n k s res. \<exists>j. snd res = sdrop j s", OF _ ret])
  fix f :: "nat \<Rightarrow> nat \<Rightarrow> rng \<Rightarrow> (nat \<times> rng) option" and n k s res
  assume IH: "\<And>n k s res. f n k s = Some res \<Longrightarrow> \<exists>j. snd res = sdrop j s"
    and eq: "(case run_state (getrandbits k) s of
               (r, s') \<Rightarrow> if r < n then Some (r, s') else f n k s') = Some res"
  obtain r s' where rs: "run_state (getrandbits k) s = (r, s')"
    by (cases "run_state (getrandbits k) s")
  have s': "s' = sdrop ((k + 31) div 32) s"
    using getrandbits_draws [of k s] by (simp add: rs)
  show "\<exists>j. snd res = sdrop j s"
  proof (cases "r < n")
    case True
    with eq rs s' show ?thesis by auto
  next
    case False
    with eq rs obtain j where "snd res = sdrop j s'" using IH by fastforce
    with s' show ?thesis by (metis sdrop_add)
  qed
qed

text \<open>Termination of the rejection loop. For \<open>0 < n < 2^32\<close>,
  \<open>_randbelow(n)\<close> returns as soon as the generator produces one output whose top
  \<open>n.bit_length()\<close> bits are below \<open>n\<close>; the loop may run forever only on a stream
  with no such output.\<close>

theorem randbelow_returns:
  assumes "0 < n" "n < 2 ^ 32" "unat (drop_bit (32 - bit_length n) (snth s i)) < n"
  shows "\<exists>r s'. randbelow n s = Some (r, s')"
proof -
  have "bit_length n \<le> 32" using assms(2) by (rule bit_length_le)
  then show ?thesis
    using randbelow_loop_returns [OF bit_length_pos [OF assms(1)] _ assms(3)]
    by (simp add: randbelow_def)
qed

theorem randbelow_returns_witness:
  "0 < (3::nat) \<and> (3::nat) < 2 ^ 32
   \<and> unat (drop_bit (32 - bit_length 3) (snth (0xFFFFFFFF ## sconst 0) 1)) < (3::nat)
   \<and> (\<exists>r s'. randbelow 3 (0xFFFFFFFF ## sconst 0) = Some (r, s'))"
proof -
  have "bit_length 3 = 2" by code_simp
  then have h: "0 < (3::nat)" "(3::nat) < 2 ^ 32"
      "unat (drop_bit (32 - bit_length 3) (snth (0xFFFFFFFF ## sconst 0) 1)) < (3::nat)"
    by simp_all
  show ?thesis using h randbelow_returns [OF h] by blast
qed

lemma run_state_uniform [py_simps]:
  "run_state (uniform a b) s = (a + (b - a) * fst (run_state random_random s), stl (stl s))"
  by (simp add: uniform_def run_state_random_random)

lemma uniform_range:
  assumes "a < b"
  shows "a \<le> fst (run_state (uniform a b) s) \<and> fst (run_state (uniform a b) s) < b"
proof -
  let ?u = "fst (run_state random_random s)"
  have u: "0 \<le> ?u" "?u < 1" using random_random_range by auto
  have "0 \<le> (b - a) * ?u" using assms u(1) by simp
  moreover have "(b - a) * ?u < (b - a) * 1"
    using assms u(2) by (intro mult_strict_left_mono) simp_all
  ultimately show ?thesis by (simp add: run_state_uniform)
qed

lemma choice_Nil: "choice [] s = Some (Inl IndexError, s)"
  by (simp add: choice_def)

lemma choice_result: "choice seq s = Some (Inr x, s') \<Longrightarrow> x \<in> set seq"
  by (auto simp: choice_def split: if_splits dest!: randbelow_result)

text \<open>The loop returns only if some output of the stream is acceptable: the first one
  it accepts.\<close>

lemma randbelow_loop_acceptable:
  assumes ret: "randbelow_loop n k s = Some res" and k: "0 < k" "k \<le> 32"
  shows "\<exists>i. unat (drop_bit (32 - k) (snth s i)) < n"
proof -
  have "0 < k \<longrightarrow> k \<le> 32 \<longrightarrow> (\<exists>i. unat (drop_bit (32 - k) (snth s i)) < n)"
  proof (rule randbelow_loop.raw_induct
      [where P = "\<lambda>n k s res. 0 < k \<longrightarrow> k \<le> 32 \<longrightarrow> (\<exists>i. unat (drop_bit (32 - k) (snth s i)) < n)",
       OF _ ret])
    fix f :: "nat \<Rightarrow> nat \<Rightarrow> rng \<Rightarrow> (nat \<times> rng) option" and n k s res
    assume IH: "\<And>n k s res. f n k s = Some res \<Longrightarrow>
        0 < k \<longrightarrow> k \<le> 32 \<longrightarrow> (\<exists>i. unat (drop_bit (32 - k) (snth s i)) < n)"
      and eq: "(case run_state (getrandbits k) s of
               (r, s') \<Rightarrow> if r < n then Some (r, s') else f n k s') = Some res"
    show "0 < k \<longrightarrow> k \<le> 32 \<longrightarrow> (\<exists>i. unat (drop_bit (32 - k) (snth s i)) < n)"
    proof (intro impI)
      assume k: "0 < k" "k \<le> 32"
      then have g: "run_state (getrandbits k) s = (unat (drop_bit (32 - k) (shd s)), stl s)"
        by (simp add: getrandbits.simps [of k])
      show "\<exists>i. unat (drop_bit (32 - k) (snth s i)) < n"
      proof (cases "unat (drop_bit (32 - k) (shd s)) < n")
        case True
        then show ?thesis by (metis snth.simps(1))
      next
        case False
        then have "f n k (stl s) = Some res" using eq g by simp
        then obtain i where "unat (drop_bit (32 - k) (snth (stl s) i)) < n" using IH k by blast
        then show ?thesis by (metis snth.simps(2))
      qed
    qed
  qed
  with k show ?thesis by blast
qed

lemma choice_acceptable:
  assumes "choice seq s = Some (r, s')" "seq \<noteq> []" "length seq < 2 ^ 32"
  shows "\<exists>i. unat (drop_bit (32 - bit_length (length seq)) (snth s i)) < length seq"
proof -
  obtain res where "randbelow_loop (length seq) (bit_length (length seq)) s = Some res"
    using assms(1,2) by (auto simp: choice_def randbelow_def)
  moreover have "0 < bit_length (length seq)" using assms(2) by (simp add: bit_length_pos)
  moreover have "bit_length (length seq) \<le> 32" using assms(3) by (rule bit_length_le)
  ultimately show ?thesis by (rule randbelow_loop_acceptable)
qed

lemma choice_draws: "choice seq s = Some (r, s') \<Longrightarrow> \<exists>j. s' = sdrop j s"
  by (auto simp: choice_def randbelow_def split: if_splits dest!: randbelow_loop_draws)
    (metis sdrop.simps(1))

lemma choice_no_raise: "seq \<noteq> [] \<Longrightarrow> choice seq s \<noteq> Some (Inl e, s')"
  by (auto simp: choice_def)

lemma choice_returns:
  assumes "seq \<noteq> []" "length seq < 2 ^ 32"
    "unat (drop_bit (32 - bit_length (length seq)) (snth s i)) < length seq"
  shows "\<exists>x s'. choice seq s = Some (Inr x, s')"
proof -
  have "0 < length seq" using assms(1) by simp
  moreover have "bit_length (length seq) \<le> 32" using assms(2) by (rule bit_length_le)
  ultimately obtain r s' where "randbelow (length seq) s = Some (r, s')"
    using randbelow_loop_returns [OF bit_length_pos _ assms(3)] by (auto simp: randbelow_def)
  then show ?thesis using assms(1) by (simp add: choice_def)
qed

lemma floor_index_less:
  assumes "0 \<le> u" "u < 1" "0 < n"
  shows "nat \<lfloor>u * real n\<rfloor> < n"
proof -
  have "u * real n < real n" using assms by simp
  then have "\<lfloor>u * real n\<rfloor> < int n" by (simp add: floor_less_iff)
  moreover have "0 \<le> \<lfloor>u * real n\<rfloor>" using assms by simp
  ultimately show ?thesis by (simp add: nat_less_iff)
qed

lemma choose_index_eq:
  assumes "population \<noteq> []"
  shows "choose_index population s =
    Some (Inr (population ! nat \<lfloor>fst (run_state random_random s) * real (length population)\<rfloor>),
          stl (stl s))
    \<and> nat \<lfloor>fst (run_state random_random s) * real (length population)\<rfloor> < length population"
  using random_random_range [of s] assms floor_index_less
  by (simp add: choose_index_def Let_def py_bind_apply py_state_apply random_random_draws)

lemma choices_result:
  assumes "population \<noteq> []"
  shows "\<exists>xs. choices population k s = Some (Inr xs, sdrop (2 * k) s)
           \<and> length xs = k \<and> set xs \<subseteq> set population"
proof (induction k arbitrary: s)
  case 0
  then show ?case by (simp add: choices_def)
next
  case (Suc k)
  obtain xs where xs: "choices population k (stl (stl s)) = Some (Inr xs, sdrop (2 * k) (stl (stl s)))"
    "length xs = k" "set xs \<subseteq> set population"
    using Suc.IH by blast
  from choose_index_eq [OF assms, of s] xs show ?case
    by (auto simp: choices_def py_bind_apply)
qed

end
