(* ===== verification/Fleet.thy ===== *)
theory Fleet
  imports PyRandom
begin

text \<open>
  The telemetry store of \<open>src/main.py\<close>: the pods DataFrame kept in
  \<open>st.session_state.pods\<close> (one row per pod, in index order), its creation at the start
  of a session (lines 102--108) and \<open>update_pod_data\<close> (lines 110--114), which walks
  the rows by index and perturbs the speed and drains the battery of every Operational
  pod. The loop is compared with a per-row traversal (\<open>traverse_list update_pod\<close>),
  and every update is shown to be one of the updates an abstract relation allows.
\<close>

section \<open>Pods\<close>

datatype status = Operational | Maintenance | Docked

text \<open>The strings the DataFrame's \<open>Status\<close> column holds.\<close>

fun status_name :: "status \<Rightarrow> string" where
  "status_name Operational = ''Operational''"
| "status_name Maintenance = ''Maintenance''"
| "status_name Docked = ''Docked''"

text \<open>One row: columns \<open>Pod Name\<close>, \<open>Speed (km/h)\<close>, \<open>Battery (%)\<close>, \<open>Status\<close>.
  Floats are modelled as reals: \<open>random()\<close> is exact (see \<open>random_random\<close>), but
  the rounding of \<open>uniform\<close>'s arithmetic and of \<open>+\<close> and \<open>-\<close> on doubles is
  not modelled.\<close>

record pod =
  pod_name :: string
  speed_kmh :: real
  battery_pct :: real
  status :: status

type_synonym fleet = "pod list"

definition pod_names :: "string list" where
  "pod_names = [''Avishkar-1'', ''Avishkar-2'', ''Avishkar-3'']"

definition status_population :: "status list" where
  "status_population = [Operational, Maintenance, Docked]"

text \<open>\<open>pd.DataFrame({...})\<close> from four equally long columns: row \<open>i\<close> takes the
  \<open>i\<close>-th entry of each.\<close>

definition make_pods :: "string list \<Rightarrow> real list \<Rightarrow> real list \<Rightarrow> status list \<Rightarrow> fleet" where
  "make_pods names speeds batteries statuses =
     map (\<lambda>(n, v, b, t). \<lparr>pod_name = n, speed_kmh = v, battery_pct = b, status = t\<rparr>)
       (zip names (zip speeds (zip batteries statuses)))"

text \<open>Lines 103--108: the dict literal is evaluated column by column, so the draws come
  in the order three speeds, three batteries, three statuses.\<close>

definition init_pods :: "(rng, fleet) py" where
  "init_pods =
     py_bind (py_repeat 3 (py_state (uniform 600 1000))) (\<lambda>speeds.
     py_bind (py_repeat 3 (py_state (uniform 60 100))) (\<lambda>batteries.
     py_bind (choices status_population 3) (\<lambda>statuses.
     py_return (make_pods pod_names speeds batteries statuses))))"

section \<open>The update loop\<close>

text \<open>One iteration of \<open>for i in range(len(pods))\<close>: for an Operational row, the speed
  is written first (\<open>min(1000, speed + uniform(-50, 50))\<close>), then the battery
  (\<open>max(0, min(100, battery - uniform(0, 1)))\<close>). Other rows draw nothing.\<close>

definition update_row :: "nat \<Rightarrow> fleet \<Rightarrow> (rng, fleet) state" where
  "update_row i pods =
     (if status (pods ! i) = Operational then do {
        d \<leftarrow> uniform (-50) 50;
        let pods' = pods[i := (pods ! i)\<lparr>speed_kmh := min 1000 (speed_kmh (pods ! i) + d)\<rparr>];
        e \<leftarrow> uniform 0 1;
        State_Monad.return
          (pods'[i := (pods' ! i)\<lparr>battery_pct := max 0 (min 100 (battery_pct (pods' ! i) - e))\<rparr>])
      }
      else State_Monad.return pods)"

primrec update_rows :: "nat list \<Rightarrow> fleet \<Rightarrow> (rng, fleet) state" where
  "update_rows [] pods = State_Monad.return pods"
| "update_rows (i # is) pods = do { pods' \<leftarrow> update_row i pods; update_rows is pods' }"

definition update_pod_data :: "fleet \<Rightarrow> (rng, fleet) state" where
  "update_pod_data pods = update_rows [0..<length pods] pods"

section \<open>Reference: the update of one pod, and what an update may do\<close>

definition update_pod :: "pod \<Rightarrow> (rng, pod) state" where
  "update_pod p =
     (if status p = Operational then do {
        d \<leftarrow> uniform (-50) 50;
        e \<leftarrow> uniform 0 1;
        State_Monad.return
          (p\<lparr>speed_kmh := min 1000 (speed_kmh p + d),
             battery_pct := max 0 (min 100 (battery_pct p - e))\<rparr>)
      }
      else State_Monad.return p)"

text \<open>What one update may do to a pod, as a relation: an Operational pod moves by a
  speed step in \<open>[-50, 50)\<close>, capped at 1000 (and, unlike the spec's
  \<open>clamp(\<dots>, 0, 1000)\<close>, not bounded below), and by a drain in \<open>[0, 1)\<close>, clamped
  to \<open>[0, 100]\<close>; any other pod stays as it is.\<close>

definition update_allowed :: "pod \<Rightarrow> pod \<Rightarrow> bool" where
  "update_allowed p q \<longleftrightarrow>
     (if status p = Operational
      then \<exists>d e. -50 \<le> d \<and> d < 50 \<and> 0 \<le> e \<and> e < 1 \<and>
             q = p\<lparr>speed_kmh := min 1000 (speed_kmh p + d),
                   battery_pct := max 0 (min 100 (battery_pct p - e))\<rparr>
      else q = p)"

definition pod_ok :: "pod \<Rightarrow> bool" where
  "pod_ok p \<longleftrightarrow> 0 \<le> battery_pct p \<and> battery_pct p \<le> 100 \<and> speed_kmh p \<le> 1000"

text \<open>The fleet of the spec's examples: A (700 km/h, 80 percent, Operational),
  B (900, 50, Docked), C (650, 90, Operational).\<close>

definition example_fleet :: fleet where
  "example_fleet =
     [\<lparr>pod_name = ''A'', speed_kmh = 700, battery_pct = 80, status = Operational\<rparr>,
      \<lparr>pod_name = ''B'', speed_kmh = 900, battery_pct = 50, status = Docked\<rparr>,
      \<lparr>pod_name = ''C'', speed_kmh = 650, battery_pct = 90, status = Operational\<rparr>]"


section \<open>Creating the fleet\<close>

lemma py_repeat_uniform:
  assumes "a < b"
  shows "\<exists>xs. py_repeat k (py_state (uniform a b)) s = Some (Inr xs, sdrop (2 * k) s)
           \<and> length xs = k \<and> (\<forall>x \<in> set xs. a \<le> x \<and> x < b)"
proof (induction k arbitrary: s)
  case 0
  then show ?case by simp
next
  case (Suc k)
  obtain xs where xs: "py_repeat k (py_state (uniform a b)) (stl (stl s)) = Some (Inr xs, sdrop (2 * k) (stl (stl s)))"
    "length xs = k" "\<forall>x \<in> set xs. a \<le> x \<and> x < b"
    using Suc.IH by blast
  let ?m = "py_state (uniform a b)" and ?u = "fst (run_state (uniform a b) s)"
  have m: "?m s = Some (Inr ?u, stl (stl s))"
    by (simp add: py_state_apply run_state_uniform)
  have "py_repeat (Suc k) ?m s = Some (Inr (?u # xs), sdrop (2 * Suc k) s)"
    by (simp add: py_bind_apply m xs(1))
  then show ?case
    using xs(2,3) uniform_range [OF assms, of s] by auto
qed

lemma make_pods_columns:
  assumes "length speeds = length names" "length batteries = length names" "length statuses = length names"
  shows "map pod_name (make_pods names speeds batteries statuses) = names
    \<and> map speed_kmh (make_pods names speeds batteries statuses) = speeds
    \<and> map battery_pct (make_pods names speeds batteries statuses) = batteries
    \<and> map status (make_pods names speeds batteries statuses) = statuses"
  using assms
proof (induction names arbitrary: speeds batteries statuses)
  case Nil
  then show ?case by (simp add: make_pods_def)
next
  case (Cons n names)
  then show ?case
    by (cases speeds; cases batteries; cases statuses) (simp_all add: make_pods_def)
qed

lemma init_pods_result:
  "\<exists>pods. init_pods s = Some (Inr pods, sdrop 18 s)
     \<and> map pod_name pods = pod_names
     \<and> (\<forall>p \<in> set pods. 600 \<le> speed_kmh p \<and> speed_kmh p < 1000
                      \<and> 60 \<le> battery_pct p \<and> battery_pct p < 100)"
proof -
  obtain vs where vs: "py_repeat 3 (py_state (uniform 600 1000)) s = Some (Inr vs, sdrop 6 s)"
      "length vs = 3" "\<forall>x \<in> set vs. 600 \<le> x \<and> x < 1000"
    using py_repeat_uniform [of 600 1000 3 s] by auto
  obtain bs where bs: "py_repeat 3 (py_state (uniform 60 100)) (sdrop 6 s) = Some (Inr bs, sdrop 12 s)"
      "length bs = 3" "\<forall>x \<in> set bs. 60 \<le> x \<and> x < 100"
    using py_repeat_uniform [of 60 100 3 "sdrop 6 s"] by auto
  obtain ts where ts: "choices status_population 3 (sdrop 12 s) = Some (Inr ts, sdrop 18 s)"
      "length ts = 3"
    using choices_result [of status_population 3 "sdrop 12 s"] by (auto simp: status_population_def)
  let ?pods = "make_pods pod_names vs bs ts"
  have cols: "map pod_name ?pods = pod_names" "map speed_kmh ?pods = vs" "map battery_pct ?pods = bs"
    using make_pods_columns [of vs pod_names bs ts] vs(2) bs(2) ts(2) by (simp_all add: pod_names_def)
  have "\<forall>p \<in> set ?pods. 600 \<le> speed_kmh p \<and> speed_kmh p < 1000 \<and> 60 \<le> battery_pct p \<and> battery_pct p < 100"
  proof
    fix p assume "p \<in> set ?pods"
    then have "speed_kmh p \<in> set vs" "battery_pct p \<in> set bs"
      using cols by (metis image_eqI list.set_map)+
    then show "600 \<le> speed_kmh p \<and> speed_kmh p < 1000 \<and> 60 \<le> battery_pct p \<and> battery_pct p < 100"
      using vs(3) bs(3) by auto
  qed
  then show ?thesis
    using vs(1) bs(1) ts(1) cols(1) by (auto simp: init_pods_def py_bind_apply)
qed


section \<open>The update: one row, the loop, and the draws\<close>

lemma run_state_update_pod_frozen:
  "status p \<noteq> Operational \<Longrightarrow> run_state (update_pod p) s = (p, s)"
  by (simp add: update_pod_def)

lemma run_state_update_pod_operational:
  "status p = Operational \<Longrightarrow> run_state (update_pod p) s =
     (p\<lparr>speed_kmh := min 1000 (speed_kmh p + fst (run_state (uniform (-50) 50) s)),
        battery_pct := max 0 (min 100 (battery_pct p - fst (run_state (uniform 0 1) (stl (stl s)))))\<rparr>,
      stl (stl (stl (stl s))))"
  by (simp add: update_pod_def run_state_uniform)

lemma update_row_update_pod:
  assumes "i < length pods"
  shows "run_state (update_row i pods) s =
           (pods[i := fst (run_state (update_pod (pods ! i)) s)], snd (run_state (update_pod (pods ! i)) s))"
  using assms by (simp add: update_row_def update_pod_def run_state_uniform)

lemma update_rows_traverse:
  "run_state (update_rows [length xs..<length xs + length ys] (xs @ ys)) s =
     (xs @ fst (run_state (traverse_list update_pod ys) s), snd (run_state (traverse_list update_pod ys) s))"
proof (induction ys arbitrary: xs s)
  case Nil
  then show ?case by simp
next
  case (Cons y ys)
  let ?y' = "fst (run_state (update_pod y) s)" and ?s' = "snd (run_state (update_pod y) s)"
  have range: "[length xs..<length xs + length (y # ys)]
      = length xs # [length (xs @ [?y'])..<length (xs @ [?y']) + length ys]"
    by (simp add: upt_conv_Cons del: upt_Suc)
  have row: "run_state (update_row (length xs) (xs @ y # ys)) s = ((xs @ [?y']) @ ys, ?s')"
    by (simp add: update_row_update_pod)
  show ?case
    using Cons.IH [of "xs @ [?y']" ?s'] by (simp only: range update_rows.simps run_state_bind row)
      (simp add: split_beta)
qed


lemma update_pod_allowed: "update_allowed p (fst (run_state (update_pod p) s))"
proof (cases "status p = Operational")
  case True
  let ?d = "fst (run_state (uniform (-50) 50) s)" and ?e = "fst (run_state (uniform 0 1) (stl (stl s)))"
  have "-50 \<le> ?d \<and> ?d < 50" "0 \<le> ?e \<and> ?e < 1" by (simp_all add: uniform_range)
  with True show ?thesis
    unfolding update_allowed_def by (simp add: run_state_update_pod_operational) blast
next
  case False
  then show ?thesis by (simp add: update_allowed_def run_state_update_pod_frozen)
qed

lemma update_pod_draws:
  "snd (run_state (update_pod p) s) = (if status p = Operational then sdrop 4 s else s)"
  by (simp add: run_state_update_pod_operational run_state_update_pod_frozen eval_nat_numeral)

lemma update_allowed_keeps: "update_allowed p q \<Longrightarrow> pod_name q = pod_name p \<and> status q = status p"
  by (auto simp: update_allowed_def split: if_splits)

lemma update_allowed_ok: "update_allowed p q \<Longrightarrow> pod_ok p \<Longrightarrow> pod_ok q"
  by (auto simp: update_allowed_def pod_ok_def split: if_splits)

lemma update_allowed_battery_le: "update_allowed p q \<Longrightarrow> 0 \<le> battery_pct p \<Longrightarrow> battery_pct q \<le> battery_pct p"
  by (auto simp: update_allowed_def split: if_splits)

lemma update_allowed_bounds:
  "update_allowed p q \<Longrightarrow> status p = Operational \<Longrightarrow>
   0 \<le> battery_pct q \<and> battery_pct q \<le> 100 \<and> speed_kmh q \<le> 1000"
  by (auto simp: update_allowed_def)

lemma update_allowed_step:
  assumes "update_allowed p q" "status p = Operational" "pod_ok p"
  shows "speed_kmh p - 50 \<le> speed_kmh q \<and> speed_kmh q < speed_kmh p + 50
    \<and> battery_pct p - 1 < battery_pct q \<and> battery_pct q \<le> battery_pct p"
proof -
  obtain d e where de: "-50 \<le> d" "d < 50" "0 \<le> e" "e < 1"
    and q: "q = p\<lparr>speed_kmh := min 1000 (speed_kmh p + d),
                   battery_pct := max 0 (min 100 (battery_pct p - e))\<rparr>"
    using assms(1,2) by (auto simp: update_allowed_def)
  have "0 \<le> battery_pct p" "battery_pct p \<le> 100" "speed_kmh p \<le> 1000"
    using assms(3) by (simp_all add: pod_ok_def)
  with de show ?thesis by (simp add: q min_def max_def)
qed

lemma run_update_pod_data:
  "run_state (update_pod_data pods) s = run_state (traverse_list update_pod pods) s"
  using update_rows_traverse [of "[]" pods s] by (simp add: update_pod_data_def)

lemma traverse_update_pod_allowed:
  "list_all2 update_allowed ps (fst (run_state (traverse_list update_pod ps) s))"
  by (rule traverse_list_all2) (rule update_pod_allowed)

lemma update_pod_data_keeps:
  "map pod_name (fst (run_state (update_pod_data pods) s)) = map pod_name pods
   \<and> map status (fst (run_state (update_pod_data pods) s)) = map status pods"
proof -
  have "list_all2 update_allowed pods (fst (run_state (update_pod_data pods) s))"
    unfolding run_update_pod_data by (rule traverse_update_pod_allowed)
  then show ?thesis
    by (induction rule: list_all2_induct) (simp_all add: update_allowed_keeps)
qed

lemma traverse_update_pod_draws:
  "snd (run_state (traverse_list update_pod ps) s)
     = sdrop (4 * length (filter (\<lambda>p. status p = Operational) ps)) s"
proof (induction ps arbitrary: s)
  case Nil
  then show ?case by simp
next
  case (Cons p ps)
  then show ?case by (simp add: split_beta update_pod_draws)
qed

text \<open>C15: refinement. Every run of \<open>update_pod_data\<close>, whatever the generator
  produces, turns each row into a row that the abstract update relation
  \<open>update_allowed\<close> allows.\<close>

theorem update_pod_data_refines:
  "list_all2 update_allowed pods (fst (run_state (update_pod_data pods) s))"
  unfolding run_update_pod_data by (rule traverse_update_pod_allowed)

text \<open>C16: equivalence. The index loop of \<open>update_pod_data\<close>
  (\<open>for i in range(len(pods))\<close>, writing back through \<open>.loc[i, \<dots>]\<close>) is the
  traversal of the rows in order with the one-pod update \<open>update_pod\<close>.\<close>

theorem update_pod_data_traverse: "update_pod_data pods = traverse_list update_pod pods"
  by (rule state_ext) (rule run_update_pod_data)

text \<open>C17: a row whose status is not Operational is left exactly as it was.\<close>

theorem update_pod_data_frozen:
  assumes "i < length pods" "status (pods ! i) \<noteq> Operational"
  shows "fst (run_state (update_pod_data pods) s) ! i = pods ! i"
  using list_all2_nthD [OF traverse_update_pod_allowed assms(1)] assms(2)
  by (simp add: update_allowed_def run_update_pod_data)

theorem update_pod_data_frozen_witness:
  "1 < length example_fleet \<and> status (example_fleet ! 1) \<noteq> Operational
   \<and> fst (run_state (update_pod_data example_fleet) (sconst 0)) ! 1 = example_fleet ! 1"
proof -
  have h: "1 < length example_fleet" "status (example_fleet ! 1) \<noteq> Operational"
    by (simp_all add: example_fleet_def)
  show ?thesis using h update_pod_data_frozen [OF h, of "sconst 0"] by blast
qed

text \<open>C18: no battery reading grows in an update: every row with a non-negative
  battery comes out with a battery at most as large.\<close>

theorem update_pod_data_battery_nonincreasing:
  "list_all2 (\<lambda>p q. 0 \<le> battery_pct p \<longrightarrow> battery_pct q \<le> battery_pct p)
     pods (fst (run_state (update_pod_data pods) s))"
  unfolding run_update_pod_data using traverse_update_pod_allowed [of pods s]
  by (rule list_all2_mono) (blast intro: update_allowed_battery_le)

theorem update_pod_data_battery_nonincreasing_witness:
  "0 \<le> battery_pct (example_fleet ! 0)
   \<and> list_all2 (\<lambda>p q. 0 \<le> battery_pct p \<longrightarrow> battery_pct q \<le> battery_pct p)
       example_fleet (fst (run_state (update_pod_data example_fleet) (sconst 0)))"
proof -
  have "0 \<le> battery_pct (example_fleet ! 0)" by (simp add: example_fleet_def)
  then show ?thesis using update_pod_data_battery_nonincreasing by blast
qed

text \<open>C19: the update consumes exactly four generator outputs (two \<open>uniform\<close> draws)
  per Operational row and none for the other rows.\<close>

theorem update_pod_data_draws:
  "snd (run_state (update_pod_data pods) s)
     = sdrop (4 * length (filter (\<lambda>p. status p = Operational) pods)) s"
  by (simp add: run_update_pod_data traverse_update_pod_draws)

text \<open>C9: creation of the fleet never fails and consumes 18 generator outputs; it holds
  the pods Avishkar-1, Avishkar-2, Avishkar-3 in order, with speeds in \<open>[600, 1000)\<close>,
  batteries in \<open>[60, 100)\<close> and statuses from the three values.\<close>

theorem init_pods_spec:
  "\<exists>pods. init_pods s = Some (Inr pods, sdrop 18 s)
     \<and> map pod_name pods = pod_names
     \<and> list_all (\<lambda>p. 600 \<le> speed_kmh p \<and> speed_kmh p < 1000
                   \<and> 60 \<le> battery_pct p \<and> battery_pct p < 100) pods
     \<and> set (map status pods) \<subseteq> set status_population"
proof -
  have "set (map status pods) \<subseteq> set status_population" for pods
    by (auto simp: status_population_def intro: status.exhaust)
  then show ?thesis using init_pods_result [of s] by (auto simp: list_all_iff)
qed

text \<open>C14: after an update every Operational row has a battery reading in \<open>[0, 100]\<close>
  and a speed of at most 1000 km/h, whatever it had before.\<close>

theorem update_pod_data_operational_bounds:
  assumes "i < length pods" "status (pods ! i) = Operational"
  shows "0 \<le> battery_pct (fst (run_state (update_pod_data pods) s) ! i)
    \<and> battery_pct (fst (run_state (update_pod_data pods) s) ! i) \<le> 100
    \<and> speed_kmh (fst (run_state (update_pod_data pods) s) ! i) \<le> 1000"
  unfolding run_update_pod_data
  using update_allowed_bounds [OF list_all2_nthD [OF traverse_update_pod_allowed assms(1)] assms(2)] .

theorem update_pod_data_operational_bounds_witness:
  "0 < length example_fleet \<and> status (example_fleet ! 0) = Operational
   \<and> 0 \<le> battery_pct (fst (run_state (update_pod_data example_fleet) (sconst 0)) ! 0)
   \<and> battery_pct (fst (run_state (update_pod_data example_fleet) (sconst 0)) ! 0) \<le> 100
   \<and> speed_kmh (fst (run_state (update_pod_data example_fleet) (sconst 0)) ! 0) \<le> 1000"
proof -
  have h: "0 < length example_fleet" "status (example_fleet ! 0) = Operational"
    by (simp_all add: example_fleet_def)
  show ?thesis using h update_pod_data_operational_bounds [OF h, of "sconst 0"] by blast
qed

text \<open>C13: one update moves the speed of an Operational pod within its limits by less than
  50 km/h either way, and drains its battery by less than one percentage point (never
  raising it): the asymmetry of the spec, a symmetric step for the speed and a one-sided
  drain for the battery.\<close>

theorem update_pod_data_step_bounds:
  assumes "i < length pods" "status (pods ! i) = Operational" "pod_ok (pods ! i)"
  shows "speed_kmh (pods ! i) - 50 \<le> speed_kmh (fst (run_state (update_pod_data pods) s) ! i)
    \<and> speed_kmh (fst (run_state (update_pod_data pods) s) ! i) < speed_kmh (pods ! i) + 50
    \<and> battery_pct (pods ! i) - 1 < battery_pct (fst (run_state (update_pod_data pods) s) ! i)
    \<and> battery_pct (fst (run_state (update_pod_data pods) s) ! i) \<le> battery_pct (pods ! i)"
  unfolding run_update_pod_data
  using update_allowed_step [OF list_all2_nthD [OF traverse_update_pod_allowed assms(1)] assms(2,3)] .

theorem update_pod_data_step_bounds_witness:
  "0 < length example_fleet \<and> status (example_fleet ! 0) = Operational \<and> pod_ok (example_fleet ! 0)
   \<and> speed_kmh (example_fleet ! 0) - 50 \<le> speed_kmh (fst (run_state (update_pod_data example_fleet) (sconst 0)) ! 0)
   \<and> speed_kmh (fst (run_state (update_pod_data example_fleet) (sconst 0)) ! 0) < speed_kmh (example_fleet ! 0) + 50
   \<and> battery_pct (example_fleet ! 0) - 1 < battery_pct (fst (run_state (update_pod_data example_fleet) (sconst 0)) ! 0)
   \<and> battery_pct (fst (run_state (update_pod_data example_fleet) (sconst 0)) ! 0) \<le> battery_pct (example_fleet ! 0)"
proof -
  have h: "0 < length example_fleet" "status (example_fleet ! 0) = Operational" "pod_ok (example_fleet ! 0)"
    by (simp_all add: example_fleet_def pod_ok_def)
  show ?thesis using h update_pod_data_step_bounds [OF h, of "sconst 0"] by blast
qed

end
