(* ===== verification/Ui.thy ===== *)
theory Ui
  imports Fleet
begin

text \<open>
  The Streamlit runtime as the script sees it. A run of the script works on an
  \<open>app\<close> state: \<open>st.session_state.pods\<close> (absent until the session creates it), the
  process-wide generator of the \<open>random\<close> module, and the page written so far. Every
  \<open>st.*\<close> call appends an element to the page; \<open>st.columns(n)\<close> appends one
  container whose columns receive what the \<open>with col:\<close> blocks write; an exception
  stops the run and keeps the page and the state as they were when it was raised.
  \<open>selectbox\<close> returns the option the user has selected (an index into the options,
  falling back to the first option, \<open>None\<close> for no options).
\<close>

named_theorems keeps_pods_intros "calls of a run that leave the session's pods as they are"

section \<open>Page elements\<close>

datatype column_config =
    NumberColumn string string
  | ProgressColumn string real real

datatype bar = Bar (bar_name: string) (bar_x: "string list") (bar_y: "real list") (bar_color: string)

record figure =
  fig_traces :: "bar list"
  fig_layout :: "(string \<times> string) list"

datatype element =
    PageConfig string string
  | Markdown string bool
  | Title string
  | Header string
  | Divider
  | Columns "element list list"
  | Selectbox string "string list" "string option"
  | DataFrame fleet "column_config list" bool
  | Metric string string
  | Warning string
  | Info string
  | PlotlyChart figure bool

section \<open>The state of a run\<close>

record app =
  app_pods :: "fleet option"
  app_rng :: rng
  app_page :: "element list"

type_synonym 'a st = "(app, 'a) py"

section \<open>Streamlit calls\<close>

definition st_emit :: "element \<Rightarrow> unit st" where
  "st_emit e = (\<lambda>s. Some (Inr (), s\<lparr>app_page := app_page s @ [e]\<rparr>))"

text \<open>The option a selectbox shows: the user's choice \<open>i\<close> if it is an index of the
  options, else the default, the first option.\<close>

definition selectbox_value :: "string list \<Rightarrow> nat \<Rightarrow> string option" where
  "selectbox_value options i =
     (if options = [] then None else Some (options ! (if i < length options then i else 0)))"

definition selectbox :: "string \<Rightarrow> string list \<Rightarrow> nat \<Rightarrow> string option st" where
  "selectbox label options i =
     py_bind (st_emit (Selectbox label options (selectbox_value options i)))
       (\<lambda>_. py_return (selectbox_value options i))"

text \<open>\<open>st.columns(n)\<close> followed by one \<open>with\<close> block per column: each block writes to
  its own column; the container is on the page after what was written before it.\<close>

primrec col_blocks :: "'a st list \<Rightarrow> element list \<Rightarrow> element list list \<Rightarrow> 'a list st" where
  "col_blocks [] outer cols = (\<lambda>s. Some (Inr [], s\<lparr>app_page := outer @ [Columns cols]\<rparr>))"
| "col_blocks (b # bs) outer cols = (\<lambda>s.
     case b (s\<lparr>app_page := []\<rparr>) of
       None \<Rightarrow> None
     | Some (Inl e, s') \<Rightarrow> Some (Inl e, s'\<lparr>app_page := outer @ [Columns (cols @ [app_page s'])]\<rparr>)
     | Some (Inr x, s') \<Rightarrow>
         (case col_blocks bs outer (cols @ [app_page s']) s' of
            None \<Rightarrow> None
          | Some (Inl e, s'') \<Rightarrow> Some (Inl e, s'')
          | Some (Inr xs, s'') \<Rightarrow> Some (Inr (x # xs), s'')))"

definition st_columns :: "'a st list \<Rightarrow> 'a list st" where
  "st_columns bs = (\<lambda>s. col_blocks bs (app_page s) [] s)"

text \<open>A draw from the process-wide generator.\<close>

definition with_rng :: "(rng, 'a) py \<Rightarrow> 'a st" where
  "with_rng m = (\<lambda>s. case m (app_rng s) of
     None \<Rightarrow> None
   | Some (r, g) \<Rightarrow> Some (r, s\<lparr>app_rng := g\<rparr>))"

text \<open>\<open>st.session_state.pods\<close>: reading it before it is set raises (Streamlit's
  AttributeError).\<close>

definition get_pods :: "fleet st" where
  "get_pods = (\<lambda>s. case app_pods s of
     None \<Rightarrow> Some (Inl AttributeError, s)
   | Some pods \<Rightarrow> Some (Inr pods, s))"

definition set_pods :: "fleet \<Rightarrow> unit st" where
  "set_pods pods = (\<lambda>s. Some (Inr (), s\<lparr>app_pods := Some pods\<rparr>))"

text \<open>A value or an exception of a pure computation, raised in the run.\<close>

definition py_lift :: "py_error + 'a \<Rightarrow> 'a st" where
  "py_lift r = (case r of Inl e \<Rightarrow> py_raise e | Inr x \<Rightarrow> py_return x)"


text \<open>Every run of the script starts on an empty page.\<close>

definition fresh_run :: "fleet option \<Rightarrow> rng \<Rightarrow> app" where
  "fresh_run pods g = \<lparr>app_pods = pods, app_rng = g, app_page = []\<rparr>"

text \<open>A computation that leaves \<open>st.session_state.pods\<close> as it found it, whenever
  it stops.\<close>

definition keeps_pods :: "'a st \<Rightarrow> bool" where
  "keeps_pods m \<longleftrightarrow> (\<forall>s r s'. m s = Some (r, s') \<longrightarrow> app_pods s' = app_pods s)"

section \<open>Lemmas\<close>

lemma selectbox_value_in_options:
  "options \<noteq> [] \<Longrightarrow> \<exists>v. selectbox_value options i = Some v \<and> v \<in> set options"
  by (simp add: selectbox_value_def)

lemma keeps_podsD: "keeps_pods m \<Longrightarrow> m s = Some (r, s') \<Longrightarrow> app_pods s' = app_pods s"
  by (simp add: keeps_pods_def)

lemma keeps_pods_return [keeps_pods_intros]: "keeps_pods (py_return x)"
  and keeps_pods_raise [keeps_pods_intros]: "keeps_pods (py_raise e)"
  and keeps_pods_emit [keeps_pods_intros]: "keeps_pods (st_emit el)"
  and keeps_pods_get [keeps_pods_intros]: "keeps_pods get_pods"
  and keeps_pods_with_rng [keeps_pods_intros]: "keeps_pods (with_rng g)"
  by (auto simp: keeps_pods_def st_emit_def get_pods_def with_rng_def split: option.splits)

lemma keeps_pods_bind [keeps_pods_intros]:
  "keeps_pods m \<Longrightarrow> (\<And>x. keeps_pods (f x)) \<Longrightarrow> keeps_pods (py_bind m f)"
  unfolding keeps_pods_def py_bind_def
  by (fastforce split: option.splits sum.splits)

lemma keeps_pods_if [keeps_pods_intros]:
  "keeps_pods m1 \<Longrightarrow> keeps_pods m2 \<Longrightarrow> keeps_pods (if b then m1 else m2)"
  by simp

lemma keeps_pods_lift [keeps_pods_intros]: "keeps_pods (py_lift r)"
  by (simp add: py_lift_def keeps_pods_intros split: sum.splits)

lemma keeps_pods_selectbox [keeps_pods_intros]: "keeps_pods (selectbox l opts i)"
  unfolding selectbox_def by (intro keeps_pods_intros)

lemma keeps_pods_col_blocks:
  "list_all keeps_pods bs \<Longrightarrow> keeps_pods (col_blocks bs outer cols)"
proof (induction bs arbitrary: cols)
  case Nil
  then show ?case by (simp add: keeps_pods_def)
next
  case (Cons b bs)
  have b: "keeps_pods b" and bs: "keeps_pods (col_blocks bs outer cols')" for cols'
    using Cons by simp_all
  show ?case
    unfolding keeps_pods_def
  proof (intro allI impI)
    fix s r s''
    assume run: "col_blocks (b # bs) outer cols s = Some (r, s'')"
    show "app_pods s'' = app_pods s"
    proof (cases "b (s\<lparr>app_page := []\<rparr>)")
      case None
      with run show ?thesis by simp
    next
      case (Some res)
      then obtain v s1 where s1: "b (s\<lparr>app_page := []\<rparr>) = Some (v, s1)"
        by (cases res) auto
      then have pods1: "app_pods s1 = app_pods s"
        using keeps_podsD [OF b s1] by simp
      show ?thesis
      proof (cases v)
        case (Inl e)
        with run s1 have "s'' = s1\<lparr>app_page := outer @ [Columns (cols @ [app_page s1])]\<rparr>"
          by auto
        with pods1 show ?thesis by simp
      next
        case (Inr x)
        with run s1 have "\<exists>r'. col_blocks bs outer (cols @ [app_page s1]) s1 = Some (r', s'')"
          by (auto split: option.splits sum.splits)
        then show ?thesis using keeps_podsD [OF bs] pods1 by metis
      qed
    qed
  qed
qed

lemma keeps_pods_columns [keeps_pods_intros]:
  assumes "list_all keeps_pods bs"
  shows "keeps_pods (st_columns bs)"
  unfolding keeps_pods_def st_columns_def
  using keeps_pods_col_blocks [OF assms, THEN keeps_podsD] by blast

end
