(* ===== verification/Styling.thy ===== *)
theory Styling
  imports Ui
begin

text \<open>
  The page configuration and the style sheet of \<open>src/main.py\<close> (lines 10--96):
  \<open>st.set_page_config(page_title=..., layout="wide")\<close> and
  \<open>st.markdown(css, unsafe_allow_html=True)\<close>, where \<open>css\<close> is the triple-quoted
  literal of lines 17--96. Both only style the page; a run sends them as the first two
  elements of the page. The literal is kept line by line as in the file: it starts with
  the newline after the opening quotes and ends with the newline after \<open></style>\<close>.
\<close>

section \<open>Page configuration\<close>

definition page_title :: string where
  "page_title = ''Avishkar Hyperloop Control Center''"

definition page_layout :: string where
  "page_layout = ''wide''"

text \<open>Lines 11--14.\<close>

definition set_page_config :: "unit st" where
  "set_page_config = st_emit (PageConfig page_title page_layout)"

section \<open>The style sheet\<close>

text \<open>Lines 18--95, one string per line.\<close>

definition style_lines :: "string list" where
  \<open>style_lines =
     [''<style>'',
      ''@import url(\'https://fonts.googleapis.com/css2?family=Orbitron:wght@400;500;600;700&display=swap\');'',
      '''',
      ''.stApp {'',
      ''    background-color: rgba(0, 0, 0, 0.95);'',
      ''}'',
      '''',
      ''.main {'',
      ''    background-color: rgba(0, 0, 0, 0.95);'',
      ''}'',
      '''',
      ''.stMarkdown, .stTitle, .stHeader {'',
      ''    font-family: \'Orbitron\', sans-serif !important;'',
      ''    color: #00ff00 !important;'',
      ''}'',
      '''',
      ''div[data-testid="stMetricValue"] {'',
      ''    font-family: \'Orbitron\', sans-serif !important;'',
      ''    color: #00ff00 !important;'',
      ''}'',
      '''',
      ''div.stButton > button {'',
      ''    font-family: \'Orbitron\', sans-serif !important;'',
      ''    background-color: rgba(0, 68, 0, 0.8);'',
      ''    color: #00ff00;'',
      ''    border: 1px solid #00ff00;'',
      ''}'',
      '''',
      ''div[data-testid="stSelectbox"] {'',
      ''    font-family: \'Orbitron\', sans-serif !important;'',
      ''    color: #00ff00;'',
      ''}'',
      '''',
      ''div.stDataFrame {'',
      ''    font-family: \'Orbitron\', sans-serif !important;'',
      ''    background-color: rgba(0, 68, 0, 0.3);'',
      ''    border: 1px solid #00ff00;'',
      ''}'',
      '''',
      ''div[data-testid="stMetricLabel"] {'',
      ''    font-family: \'Orbitron\', sans-serif !important;'',
      ''    color: #00ff00;'',
      ''}'',
      '''',
      ''.reportview-container {'',
      ''    background: rgba(0, 0, 0, 0.95);'',
      ''}'',
      '''',
      ''.sidebar .sidebar-content {'',
      ''    background: rgba(0, 0, 0, 0.95);'',
      ''}'',
      '''',
      ''h1 {'',
      ''    font-family: \'Orbitron\', sans-serif !important;'',
      ''    text-align: center !important;'',
      ''    width: 100% !important;'',
      ''    color: #00ff00 !important;'',
      ''    padding: 1rem;'',
      ''    border-bottom: 2px solid #00ff00;'',
      ''    margin-bottom: 2rem;'',
      ''}'',
      '''',
      ''div[data-testid="stHeader"] {'',
      ''    background-color: rgba(0, 0, 0, 0.95);'',
      ''}'',
      '''',
      ''.stWarning {'',
      ''    background-color: rgba(0, 68, 0, 0.3);'',
      ''    border: 1px solid #00ff00;'',
      ''    color: #00ff00;'',
      ''}'',
      '''',
      ''.stInfo {'',
      ''    background-color: rgba(0, 68, 0, 0.3);'',
      ''    border: 1px solid #00ff00;'',
      ''    color: #00ff00;'',
      ''}'',
      ''</style>'']\<close>

text \<open>The string literal of lines 17--96: a newline, then every line followed by a
  newline.\<close>

definition style_sheet :: string where
  "style_sheet = CHR 0x0A # concat (map (\<lambda>l. l @ [CHR 0x0A]) style_lines)"

text \<open>Lines 17--96.\<close>

definition apply_style :: "unit st" where
  "apply_style = st_emit (Markdown style_sheet True)"

end
