(* ===== verification/Tracker.thy ===== *)
theory Tracker
  imports Ui "HOL-Library.Char_ord" "HOL-Library.List_Lexorder"
begin

text \<open>
  \<open>pod_tracker\<close> (\<open>src/main.py\<close> lines 116--137): two selectboxes side by side (a
  status filter whose options are \<open>'All'\<close> and the statuses present, and the sort
  column), the filter, pandas' \<open>sort_values(by=..., ascending=False)\<close>, and the table.
  pandas sorts one column through \<open>nargsort\<close>: for a descending sort it reverses the
  rows, sorts them ascending with numpy's \<open>argsort\<close>, and reverses the result; for
  fewer than 17 rows numpy's default quicksort is an insertion sort, which is stable,
  as the library's \<open>sort_key\<close> is. The main results: this is the stable descending
  sort (\<open>sort_key\<close> on the negated key), and the table shows exactly the rows of the
  selected status, in that order.
\<close>

section \<open>Filter and sort\<close>

definition status_filter_options :: "fleet \<Rightarrow> string list" where
  "status_filter_options pods = ''All'' # py_unique (map (\<lambda>p. status_name (status p)) pods)"

definition sort_options :: "string list" where
  "sort_options = [''Speed (km/h)'', ''Battery (%)'']"

text \<open>\<open>if status_filter != 'All': pods = pods[pods['Status'] == status_filter]\<close>; a
  missing selection (\<open>None\<close>) differs from \<open>'All'\<close> and equals no status.\<close>

definition filter_rows :: "string option \<Rightarrow> fleet \<Rightarrow> fleet" where
  "filter_rows status_filter pods =
     (case status_filter of
        None \<Rightarrow> []
      | Some f \<Rightarrow> if f \<noteq> ''All'' then filter (\<lambda>p. status_name (status p) = f) pods else pods)"

text \<open>pandas' \<open>nargsort(items, ascending=False)\<close> with a stable argsort.\<close>

definition sort_desc :: "('a \<Rightarrow> 'k::linorder) \<Rightarrow> 'a list \<Rightarrow> 'a list" where
  "sort_desc f xs = rev (sort_key f (rev xs))"

text \<open>\<open>DataFrame.sort_values(by=c, ascending=False)\<close>: by a numeric column, or by a
  string column in Python's code-point order; KeyError for any other \<open>by\<close>.\<close>

definition sort_values_desc :: "string option \<Rightarrow> fleet \<Rightarrow> py_error + fleet" where
  "sort_values_desc by rows =
     (case by of
        None \<Rightarrow> Inl KeyError
      | Some c \<Rightarrow>
          if c = ''Speed (km/h)'' then Inr (sort_desc speed_kmh rows)
          else if c = ''Battery (%)'' then Inr (sort_desc battery_pct rows)
          else if c = ''Pod Name'' then Inr (sort_desc pod_name rows)
          else if c = ''Status'' then Inr (sort_desc (\<lambda>p. status_name (status p)) rows)
          else Inl KeyError)"

definition tracker_columns :: "column_config list" where
  "tracker_columns = [NumberColumn ''Speed (km/h)'' ''%.2f'', ProgressColumn ''Battery (%)'' 0 100]"

section \<open>The tracker\<close>

definition pod_tracker :: "nat \<Rightarrow> nat \<Rightarrow> unit st" where
  "pod_tracker i_filter i_sort =
     py_bind (st_emit (Header ''Pod Tracker'')) (\<lambda>_.
     py_bind get_pods (\<lambda>pods.
     py_bind (st_columns
                [selectbox ''Filter by Status'' (status_filter_options pods) i_filter,
                 selectbox ''Sort by'' sort_options i_sort]) (\<lambda>sel.
     py_bind get_pods (\<lambda>filtered_pods.
     py_bind (py_lift (sort_values_desc (sel ! 1) (filter_rows (sel ! 0) filtered_pods))) (\<lambda>rows.
     st_emit (DataFrame rows tracker_columns True))))))"

text \<open>The table the tracker shows, as a function of the fleet and the two selections.\<close>

definition tracker_table :: "fleet \<Rightarrow> nat \<Rightarrow> nat \<Rightarrow> py_error + fleet" where
  "tracker_table pods i_filter i_sort =
     sort_values_desc (selectbox_value sort_options i_sort)
       (filter_rows (selectbox_value (status_filter_options pods) i_filter) pods)"


section \<open>Sorting: pandas' descending sort is the stable descending sort\<close>

lemma mset_sort_desc [simp]: "mset (sort_desc f xs) = mset xs"
  by (simp add: sort_desc_def)

lemma set_sort_desc [simp]: "set (sort_desc f xs) = set xs"
  by (simp add: sort_desc_def)

lemma sort_desc_descending: "sorted_wrt (\<lambda>x y. f y \<le> f x) (sort_desc f xs)"
proof -
  have "sorted (map f (sort_key f (rev xs)))" by simp
  then show ?thesis by (simp add: sort_desc_def sorted_wrt_rev sorted_wrt_map)
qed

lemma sort_desc_stable: "filter (\<lambda>y. f y = k) (sort_desc f xs) = filter (\<lambda>y. f y = k) xs"
  by (simp add: sort_desc_def rev_filter [symmetric] sort_key_stable)

text \<open>For a numeric key, pandas' descending sort is the library's stable sort on the
  negated key.\<close>

lemma sort_desc_sort_key_neg:
  fixes f :: "'a \<Rightarrow> real"
  shows "sort_desc f xs = sort_key (\<lambda>x. - f x) xs"
proof (rule properties_for_sort_key [symmetric])
  show "mset (sort_desc f xs) = mset xs" by simp
  show "filter (\<lambda>x. - f k = - f x) (sort_desc f xs) = filter (\<lambda>x. - f k = - f x) xs" for k
    using sort_desc_stable [of f "f k" xs] by (simp add: eq_commute)
  show "sorted (map (\<lambda>x. - f x) (sort_desc f xs))"
    using sort_desc_descending [of f xs] by (simp add: sorted_wrt_map)
qed

text \<open>C22: pandas' descending \<open>sort_values\<close> (\<open>nargsort\<close> with a stable argsort)
  returns exactly the stable descending sort: a list is its result if and only if it is a
  permutation of the input, ordered from the largest key to the smallest, and keeps the
  input order among rows with equal keys. This holds for any ordered key, the string
  columns included.\<close>

theorem sort_desc_spec:
  "ys = sort_desc f xs \<longleftrightarrow>
     mset ys = mset xs \<and> sorted_wrt (\<lambda>x y. f y \<le> f x) ys
     \<and> (\<forall>k. filter (\<lambda>y. f y = k) ys = filter (\<lambda>y. f y = k) xs)"
proof
  assume "ys = sort_desc f xs"
  then show "mset ys = mset xs \<and> sorted_wrt (\<lambda>x y. f y \<le> f x) ys
     \<and> (\<forall>k. filter (\<lambda>y. f y = k) ys = filter (\<lambda>y. f y = k) xs)"
    by (simp add: sort_desc_descending sort_desc_stable)
next
  assume props: "mset ys = mset xs \<and> sorted_wrt (\<lambda>x y. f y \<le> f x) ys
     \<and> (\<forall>k. filter (\<lambda>y. f y = k) ys = filter (\<lambda>y. f y = k) xs)"
  have "sort_key f (rev xs) = rev ys"
  proof (rule properties_for_sort_key)
    show "mset (rev ys) = mset (rev xs)" using props by simp
    show "filter (\<lambda>x. f k = f x) (rev ys) = filter (\<lambda>x. f k = f x) (rev xs)" for k
      using props by (simp add: rev_filter [symmetric] eq_commute [of "f k"])
    show "sorted (map f (rev ys))"
      using props by (simp add: sorted_wrt_rev sorted_wrt_map)
  qed
  then show "ys = sort_desc f xs" by (simp add: sort_desc_def)
qed

lemma selectbox_value_sort_options:
  "selectbox_value sort_options j = Some (if j = 1 then ''Battery (%)'' else ''Speed (km/h)'')"
  by (auto simp: selectbox_value_def sort_options_def nth_Cons split: nat.splits)

lemma tracker_table_eq:
  "tracker_table pods i j =
     Inr (sort_desc (\<lambda>p. if j = 1 then battery_pct p else speed_kmh p)
           (filter_rows (selectbox_value (status_filter_options pods) i) pods))"
  by (simp add: tracker_table_def selectbox_value_sort_options sort_values_desc_def if_distrib [of sort_desc]
      cong: if_cong)

lemma filter_rows_Some:
  "filter_rows (Some f) pods = (if f = ''All'' then pods else filter (\<lambda>p. status_name (status p) = f) pods)"
  by (simp add: filter_rows_def)

lemma status_name_not_All: "status_name t \<noteq> ''All''" "''All'' \<noteq> status_name t"
  by (cases t; simp)+

lemma status_filter_options_example:
  "status_filter_options example_fleet = [''All'', ''Operational'', ''Docked'']"
  by (simp add: status_filter_options_def example_fleet_def py_unique_def)
text \<open>C21: the table of the tracker is the filtered fleet sorted by the stable sort on the
  negated selected column (Battery for the second option, Speed otherwise), so ties
  keep the fleet's order, as the spec requires.\<close>

theorem tracker_table_sorted:
  "tracker_table pods i j =
     Inr (sort_key (\<lambda>p. - (if j = 1 then battery_pct p else speed_kmh p))
           (filter_rows (selectbox_value (status_filter_options pods) i) pods))"
  by (simp add: tracker_table_eq sort_desc_sort_key_neg)

text \<open>C20: the table never raises on the selectable options, it holds exactly the rows of
  the selected status (every row for \<open>'All'\<close>), and no row of another status.\<close>

theorem tracker_table_rows:
  assumes "selectbox_value (status_filter_options pods) i = Some f"
  shows "\<exists>rows. tracker_table pods i j = Inr rows
    \<and> mset rows = mset (if f = ''All'' then pods else filter (\<lambda>p. status_name (status p) = f) pods)
    \<and> (\<forall>p \<in> set rows. f = ''All'' \<or> status_name (status p) = f)"
  using assms by (auto simp: tracker_table_eq filter_rows_Some)

theorem tracker_table_rows_witness:
  "selectbox_value (status_filter_options example_fleet) 1 = Some ''Operational''
   \<and> (\<exists>rows. tracker_table example_fleet 1 0 = Inr rows
       \<and> mset rows = mset (if ''Operational'' = ''All'' then example_fleet
            else filter (\<lambda>p. status_name (status p) = ''Operational'') example_fleet)
       \<and> (\<forall>p \<in> set rows. ''Operational'' = ''All'' \<or> status_name (status p) = ''Operational''))"
proof -
  have h: "selectbox_value (status_filter_options example_fleet) 1 = Some ''Operational''"
    by (simp add: status_filter_options_example selectbox_value_def)
  show ?thesis using h tracker_table_rows [OF h, of 0] by blast
qed

text \<open>C24: the options of the status filter are \<open>'All'\<close> followed by the statuses
  present in the fleet, each once: they are distinct, and the options after \<open>'All'\<close>
  are exactly the statuses of the pods.\<close>

theorem status_filter_options_distinct:
  "distinct (status_filter_options pods) \<and> hd (status_filter_options pods) = ''All''
   \<and> set (tl (status_filter_options pods)) = (\<lambda>p. status_name (status p)) ` set pods"
  by (auto simp: status_filter_options_def py_unique_def distinct_unique_from set_unique_from
      status_name_not_All)

lemma pod_tracker_no_pods:
  "app_pods s = None \<Longrightarrow>
   pod_tracker i j s = Some (Inl AttributeError, s\<lparr>app_page := app_page s @ [Header ''Pod Tracker'']\<rparr>)"
  by (simp add: pod_tracker_def py_bind_apply st_emit_def get_pods_def)

text \<open>The run of the tracker on a session with pods, given the table it shows.\<close>

lemma pod_tracker_apply:
  assumes "app_pods s = Some pods" "tracker_table pods i j = Inr rows"
  shows "pod_tracker i j s = Some (Inr (), s\<lparr>app_page := app_page s @
         [Header ''Pod Tracker'',
          Columns [[Selectbox ''Filter by Status'' (status_filter_options pods)
                      (selectbox_value (status_filter_options pods) i)],
                   [Selectbox ''Sort by'' sort_options (selectbox_value sort_options j)]],
          DataFrame rows tracker_columns True]\<rparr>)"
  using assms
  by (simp add: tracker_table_def pod_tracker_def py_bind_apply st_emit_def get_pods_def
      st_columns_def selectbox_def py_lift_def)

lemma tracker_table_Inr: "\<exists>rows. tracker_table pods i j = Inr rows"
  by (simp add: tracker_table_eq)

text \<open>C23: on a session with pods, the tracker writes its header, the two selectboxes
  side by side showing the selected options, and the table, and returns normally.\<close>

theorem pod_tracker_page:
  assumes "app_pods s = Some pods"
  shows "\<exists>rows. tracker_table pods i j = Inr rows
    \<and> pod_tracker i j s = Some (Inr (), s\<lparr>app_page := app_page s @
         [Header ''Pod Tracker'',
          Columns [[Selectbox ''Filter by Status'' (status_filter_options pods)
                      (selectbox_value (status_filter_options pods) i)],
                   [Selectbox ''Sort by'' sort_options (selectbox_value sort_options j)]],
          DataFrame rows tracker_columns True]\<rparr>)"
  using tracker_table_Inr [of pods i j] pod_tracker_apply [OF assms] by blast


theorem pod_tracker_page_witness:
  "app_pods \<lparr>app_pods = Some example_fleet, app_rng = sconst 0, app_page = []\<rparr> = Some example_fleet
   \<and> (\<exists>rows. tracker_table example_fleet 1 0 = Inr rows
       \<and> pod_tracker 1 0 \<lparr>app_pods = Some example_fleet, app_rng = sconst 0, app_page = []\<rparr>
         = Some (Inr (), \<lparr>app_pods = Some example_fleet, app_rng = sconst 0, app_page =
             [Header ''Pod Tracker'',
              Columns [[Selectbox ''Filter by Status'' (status_filter_options example_fleet)
                          (selectbox_value (status_filter_options example_fleet) 1)],
                       [Selectbox ''Sort by'' sort_options (selectbox_value sort_options 0)]],
              DataFrame rows tracker_columns True]\<rparr>))"
proof -
  have h: "app_pods \<lparr>app_pods = Some example_fleet, app_rng = sconst 0, app_page = []\<rparr>
      = Some example_fleet" by simp
  show ?thesis using pod_tracker_page [OF h, of 1 0] by simp
qed

lemma pod_tracker_returns:
  assumes "app_pods s = Some pods"
  shows "\<exists>s'. pod_tracker i j s = Some (Inr (), s') \<and> app_rng s' = app_rng s"
  using tracker_table_Inr [of pods i j] pod_tracker_apply [OF assms] by fastforce

lemma keeps_pods_pod_tracker [keeps_pods_intros]: "keeps_pods (pod_tracker i j)"
  unfolding pod_tracker_def by (intro keeps_pods_intros) (simp_all add: keeps_pods_intros)

section \<open>The spec's examples\<close>

text \<open>The spec's two examples. On the fleet A (700 km/h, 80 percent, Operational),
  B (900, 50, Docked), C (650, 90, Operational): the filter Operational (the second option)
  with the sort by speed (the first) shows A then C, without B; the filter All with the
  sort by battery shows C, A, B.\<close>

lemma tracker_table_spec_examples:
  "selectbox_value (status_filter_options example_fleet) 1 = Some ''Operational''
   \<and> selectbox_value sort_options 0 = Some ''Speed (km/h)''
   \<and> tracker_table example_fleet 1 0 = Inr [example_fleet ! 0, example_fleet ! 2]
   \<and> selectbox_value (status_filter_options example_fleet) 0 = Some ''All''
   \<and> selectbox_value sort_options 1 = Some ''Battery (%)''
   \<and> tracker_table example_fleet 0 1 = Inr [example_fleet ! 2, example_fleet ! 0, example_fleet ! 1]"
  by (simp add: tracker_table_eq filter_rows_Some status_filter_options_def example_fleet_def
      py_unique_def selectbox_value_def sort_desc_def sort_options_def)

end
