(* ===== verification/Widgets.thy ===== *)
theory Widgets
  imports Ui
begin

text \<open>
  \<open>route_monitor\<close> (\<open>src/main.py\<close> lines 139--156) and \<open>energy_section\<close>
  (lines 158--166): the weather is drawn afresh on every run (a condition with
  \<open>random.choice\<close>, then temperature and humidity with \<open>random.uniform\<close>), shown as
  three metrics with one decimal, and followed by the recommended speed limit; the energy
  panel shows one of four fixed tips. The numbers on the page are Python's \<open>str\<close> of an
  \<open>int\<close> and the \<open>.1f\<close> format of a float (round half to even on the exact value).
  Python strings are lists of code points; every code point here is below 256, so a
  \<open>char\<close> holds it.
\<close>

section \<open>Formatting numbers\<close>

text \<open>Decimal digits of a natural number, most significant first.\<close>

definition digit_char :: "nat \<Rightarrow> char" where
  "digit_char d = ''0123456789'' ! d"

fun nat_digits :: "nat \<Rightarrow> string" where
  "nat_digits n =
     (if n < 10 then [digit_char n] else nat_digits (n div 10) @ [digit_char (n mod 10)])"

declare nat_digits.simps [simp del]

text \<open>\<open>str(i)\<close> for an \<open>int\<close>.\<close>

definition py_str_int :: "int \<Rightarrow> string" where
  "py_str_int i = (if i < 0 then ''-'' @ nat_digits (nat (- i)) else nat_digits (nat i))"

text \<open>Rounding to an integer, ties to the even neighbour.\<close>

definition round_half_even :: "real \<Rightarrow> int" where
  "round_half_even r =
     (let f = \<lfloor>r\<rfloor>; e = r - of_int f in
      if e < 1/2 then f else if 1/2 < e then f + 1 else if even f then f else f + 1)"

text \<open>\<open>format(x, '.<d>f')\<close>: the sign, the integer part, and \<open>d\<close> decimals of the
  magnitude rounded half to even.\<close>

definition format_fixed :: "nat \<Rightarrow> real \<Rightarrow> string" where
  "format_fixed d x =
     (let n = nat (round_half_even (\<bar>x\<bar> * 10 ^ d));
          ip = n div 10 ^ d; fp = n mod 10 ^ d in
      (if x < 0 then ''-'' else []) @ nat_digits ip @
      (if d = 0 then [] else ''.'' @ replicate (d - length (nat_digits fp)) (CHR ''0'') @ nat_digits fp))"

section \<open>The weather panel\<close>

definition weather_conditions :: "string list" where
  "weather_conditions = [''Clear'', ''Rain'', ''Cloudy'']"

record weather =
  condition :: string
  temperature :: real
  humidity :: real

text \<open>Lines 141--145: the dict literal draws in the order condition, temperature,
  humidity.\<close>

definition sample_weather :: "(rng, weather) py" where
  "sample_weather =
     py_bind (choice weather_conditions) (\<lambda>c.
     py_bind (py_state (uniform 20 35)) (\<lambda>t.
     py_bind (py_state (uniform 40 90)) (\<lambda>h.
     py_return \<lparr>condition = c, temperature = t, humidity = h\<rparr>)))"

text \<open>Line 155.\<close>

definition speed_limit_for :: "string \<Rightarrow> int" where
  "speed_limit_for c = (if c = ''Clear'' then 1000 else 700)"

text \<open>The suffix of the temperature metric as the file spells it (line 151): the bytes
  \<open>C3 82 C2 B0\<close> of the source decode to the two code points U+00C2 and U+00B0.\<close>

definition temperature_suffix :: string where
  "temperature_suffix = [CHR 0xC2, CHR 0xB0, CHR ''C'']"

definition route_monitor :: "unit st" where
  "route_monitor =
     py_bind (st_emit (Header ''Route Weather Monitor'')) (\<lambda>_.
     py_bind (with_rng sample_weather) (\<lambda>w.
     py_bind (st_columns
                [st_emit (Metric ''Weather'' (condition w)),
                 st_emit (Metric ''Temperature'' (format_fixed 1 (temperature w) @ temperature_suffix)),
                 st_emit (Metric ''Humidity'' (format_fixed 1 (humidity w) @ ''%''))]) (\<lambda>_.
     st_emit (Warning (''Recommended Speed Limit: '' @ py_str_int (speed_limit_for (condition w))
                       @ '' km/h'')))))"

section \<open>The energy panel\<close>

definition energy_tips :: "string list" where
  "energy_tips =
     [''Optimize pod aerodynamics to reduce energy consumption'',
      ''Schedule maintenance during off-peak hours'',
      ''Use regenerative braking to recover energy'',
      ''Monitor battery temperature for optimal performance'']"

definition energy_section :: "unit st" where
  "energy_section =
     py_bind (st_emit (Header ''Energy Optimization'')) (\<lambda>_.
     py_bind (with_rng (choice energy_tips)) (\<lambda>tip.
     st_emit (Info tip)))"


section \<open>Formatting: examples\<close>

lemma py_str_int_1000: "py_str_int 1000 = ''1000''" by (simp add: py_str_int_def nat_digits.simps digit_char_def)

lemma py_str_int_700: "py_str_int 700 = ''700''" by (simp add: py_str_int_def nat_digits.simps digit_char_def)

lemma format_fixed_half_even: "format_fixed 1 (81/4) = ''20.2''" by (simp add: format_fixed_def round_half_even_def nat_digits.simps Let_def digit_char_def)

lemma format_fixed_negative_zero: "format_fixed 1 (-1/25) = ''-0.0''" by (simp add: format_fixed_def round_half_even_def nat_digits.simps Let_def digit_char_def)

lemma format_fixed_two_decimals: "format_fixed 2 (1234567/1000) = ''1234.57''" by (simp add: format_fixed_def round_half_even_def nat_digits.simps Let_def digit_char_def)

section \<open>The panels: what a run writes, and when it returns\<close>

lemma bit_length_3: "bit_length 3 = 2" and bit_length_4: "bit_length 4 = 3"
  by code_simp+

lemma sample_weather_result:
  assumes "sample_weather g = Some (r, g')"
  shows "\<exists>w. r = Inr w \<and> condition w \<in> set weather_conditions
    \<and> 20 \<le> temperature w \<and> temperature w < 35 \<and> 40 \<le> humidity w \<and> humidity w < 90"
proof -
  obtain v g1 where c: "choice weather_conditions g = Some (v, g1)"
    using assms by (cases "choice weather_conditions g") (auto simp: sample_weather_def py_bind_apply)
  then obtain cnd where v: "v = Inr cnd" and cnd: "cnd \<in> set weather_conditions"
    using choice_no_raise [of weather_conditions g] choice_result [of weather_conditions g]
    by (cases v) (auto simp: weather_conditions_def)
  let ?t = "fst (run_state (uniform 20 35) g1)" and ?h = "fst (run_state (uniform 40 90) (stl (stl g1)))"
  have "r = Inr \<lparr>condition = cnd, temperature = ?t, humidity = ?h\<rparr>"
    using assms c v by (simp add: sample_weather_def py_bind_apply py_state_apply run_state_uniform)
  moreover have "20 \<le> ?t \<and> ?t < 35" "40 \<le> ?h \<and> ?h < 90" by (simp_all add: uniform_range)
  ultimately show ?thesis using cnd by auto
qed

lemma sample_weather_returns:
  assumes "unat (drop_bit 30 (snth g i)) < 3"
  shows "\<exists>w g'. sample_weather g = Some (Inr w, g')"
proof -
  have len: "length weather_conditions = 3" by (simp add: weather_conditions_def)
  have "unat (drop_bit (32 - bit_length (length weather_conditions)) (snth g i))
      < length weather_conditions"
    unfolding len bit_length_3 using assms by simp
  moreover have "weather_conditions \<noteq> []" "length weather_conditions < 2 ^ 32"
    by (simp_all add: len) (simp add: weather_conditions_def)
  ultimately obtain c g1 where "choice weather_conditions g = Some (Inr c, g1)"
    using choice_returns by blast
  then show ?thesis by (simp add: sample_weather_def py_bind_apply py_state_apply)
qed

lemma speed_limit_text:
  "py_str_int (speed_limit_for c) = (if c = ''Clear'' then ''1000'' else ''700'')"
  by (simp add: speed_limit_for_def py_str_int_def nat_digits.simps digit_char_def)

text \<open>C27: every run of the weather panel that returns writes the header, the three
  metrics side by side and the warning, for a weather drawn from the three conditions with
  temperature in \<open>[20, 35)\<close> and humidity in \<open>[40, 90)\<close>; the warning recommends
  1000 km/h exactly when the condition is Clear and 700 otherwise; the temperature is
  followed by the code points U+00C2 U+00B0 \<open>C\<close> (\<open>temperature_suffix\<close>, shown
  as a capital A with circumflex before the degree sign); the session's pods are untouched.\<close>

theorem route_monitor_page:
  assumes "route_monitor s = Some (r, s')"
  shows "r = Inr () \<and> app_pods s' = app_pods s
    \<and> (\<exists>w :: weather. condition w \<in> set weather_conditions
        \<and> 20 \<le> temperature w \<and> temperature w < 35 \<and> 40 \<le> humidity w \<and> humidity w < 90
        \<and> app_page s' = app_page s @
             [Header ''Route Weather Monitor'',
              Columns [[Metric ''Weather'' (condition w)],
                       [Metric ''Temperature'' (format_fixed 1 (temperature w) @ temperature_suffix)],
                       [Metric ''Humidity'' (format_fixed 1 (humidity w) @ ''%'')]],
              Warning (''Recommended Speed Limit: '' @ (if condition w = ''Clear'' then ''1000'' else ''700'')
                       @ '' km/h'')])"
proof -
  obtain v g where sw: "sample_weather (app_rng s) = Some (v, g)"
    using assms by (cases "sample_weather (app_rng s)")
      (auto simp: route_monitor_def py_bind_apply st_emit_def with_rng_def)
  then obtain w where v: "v = Inr w" and w: "condition w \<in> set weather_conditions"
      "20 \<le> temperature w \<and> temperature w < 35 \<and> 40 \<le> humidity w \<and> humidity w < 90"
    using sample_weather_result by blast
  define view where "view =
             [Header ''Route Weather Monitor'',
              Columns [[Metric ''Weather'' (condition w)],
                       [Metric ''Temperature'' (format_fixed 1 (temperature w) @ temperature_suffix)],
                       [Metric ''Humidity'' (format_fixed 1 (humidity w) @ ''%'')]],
              Warning (''Recommended Speed Limit: '' @ (if condition w = ''Clear'' then ''1000'' else ''700'')
                       @ '' km/h'')]"
  have "r = Inr () \<and> s' = s\<lparr>app_rng := g, app_page := app_page s @ view\<rparr>"
    using assms sw v
    by (auto simp: route_monitor_def py_bind_apply st_emit_def with_rng_def st_columns_def
        speed_limit_text view_def)
  then have "r = Inr ()" "app_pods s' = app_pods s" "app_page s' = app_page s @ view"
    by auto
  with w show ?thesis unfolding view_def by blast
qed

text \<open>The weather panel returns as soon as the generator has one output whose top two
  bits are not both set (the rejection loop of \<open>random.choice\<close> over three
  conditions); the two \<open>uniform\<close> draws always return.\<close>

theorem route_monitor_returns:
  assumes "unat (drop_bit 30 (snth (app_rng s) i)) < 3"
  shows "\<exists>s'. route_monitor s = Some (Inr (), s')"
proof -
  obtain w g where "sample_weather (app_rng s) = Some (Inr w, g)"
    using sample_weather_returns [OF assms] by blast
  then show ?thesis
    by (simp add: route_monitor_def py_bind_apply st_emit_def with_rng_def st_columns_def)
qed

text \<open>C28: every run of the energy panel that returns writes its header and one of the
  four fixed tips, and leaves the pods untouched.\<close>

theorem energy_section_page:
  assumes "energy_section s = Some (r, s')"
  shows "r = Inr () \<and> app_pods s' = app_pods s
    \<and> (\<exists>tip \<in> set energy_tips. app_page s' = app_page s @ [Header ''Energy Optimization'', Info tip])"
proof -
  obtain v g where c: "choice energy_tips (app_rng s) = Some (v, g)"
    using assms by (cases "choice energy_tips (app_rng s)")
      (auto simp: energy_section_def py_bind_apply st_emit_def with_rng_def)
  then obtain tip where v: "v = Inr tip" and tip: "tip \<in> set energy_tips"
    using choice_no_raise [of energy_tips] choice_result [of energy_tips]
    by (cases v) (auto simp: energy_tips_def)
  then show ?thesis
    using assms c by (auto simp: energy_section_def py_bind_apply st_emit_def with_rng_def)
qed

text \<open>The energy panel returns as soon as the generator has one output whose top three
  bits encode a number below 4.\<close>

theorem energy_section_returns:
  assumes "unat (drop_bit 29 (snth (app_rng s) i)) < 4"
  shows "\<exists>s'. energy_section s = Some (Inr (), s')"
proof -
  have len: "length energy_tips = 4" by (simp add: energy_tips_def)
  have "unat (drop_bit (32 - bit_length (length energy_tips)) (snth (app_rng s) i)) < length energy_tips"
    unfolding len bit_length_4 using assms by simp
  moreover have "energy_tips \<noteq> []" "length energy_tips < 2 ^ 32"
    by (simp_all add: len) (simp add: energy_tips_def)
  ultimately obtain tip g where "choice energy_tips (app_rng s) = Some (Inr tip, g)"
    using choice_returns by blast
  then show ?thesis by (simp add: energy_section_def py_bind_apply st_emit_def with_rng_def)
qed


lemma keeps_pods_route_monitor [keeps_pods_intros]: "keeps_pods route_monitor"
  unfolding route_monitor_def by (intro keeps_pods_intros) (simp_all add: keeps_pods_intros)

lemma keeps_pods_energy_section [keeps_pods_intros]: "keeps_pods energy_section"
  unfolding energy_section_def by (intro keeps_pods_intros)

text \<open>The panels only consume generator outputs.\<close>

lemma sample_weather_draws:
  assumes "sample_weather g = Some (r, g')"
  shows "\<exists>k. g' = sdrop k g"
proof -
  obtain v g1 where c: "choice weather_conditions g = Some (v, g1)"
    using assms by (cases "choice weather_conditions g") (auto simp: sample_weather_def py_bind_apply)
  obtain j where j: "g1 = sdrop j g" using choice_draws [OF c] by blast
  show ?thesis
  proof (cases v)
    case (Inl e)
    then show ?thesis using assms c j by (auto simp: sample_weather_def py_bind_apply)
  next
    case (Inr x)
    then have "g' = sdrop 4 g1"
      using assms c by (simp add: sample_weather_def py_bind_apply py_state_apply run_state_uniform
          eval_nat_numeral)
    then show ?thesis using j by (metis sdrop_add)
  qed
qed

lemma route_monitor_draws:
  assumes "route_monitor s = Some (r, s')"
  shows "\<exists>k. app_rng s' = sdrop k (app_rng s)"
proof -
  obtain v g where sw: "sample_weather (app_rng s) = Some (v, g)"
    using assms by (cases "sample_weather (app_rng s)")
      (auto simp: route_monitor_def py_bind_apply st_emit_def with_rng_def)
  then have "app_rng s' = g"
    using assms by (cases v) (auto simp: route_monitor_def py_bind_apply st_emit_def with_rng_def
        st_columns_def)
  then show ?thesis using sample_weather_draws [OF sw] by simp
qed

lemma energy_section_draws:
  assumes "energy_section s = Some (r, s')"
  shows "\<exists>k. app_rng s' = sdrop k (app_rng s)"
proof -
  obtain v g where c: "choice energy_tips (app_rng s) = Some (v, g)"
    using assms by (cases "choice energy_tips (app_rng s)")
      (auto simp: energy_section_def py_bind_apply st_emit_def with_rng_def)
  then have "app_rng s' = g"
    using assms by (cases v) (auto simp: energy_section_def py_bind_apply st_emit_def with_rng_def)
  then show ?thesis using choice_draws [OF c] by simp
qed

subsection \<open>Runs on a generator that outputs only zeros\<close>

lemma randbelow_zero_stream:
  "0 < n \<Longrightarrow> n < 2 ^ 32 \<Longrightarrow> randbelow n (sconst 0) = Some (0, sconst 0)"
  using bit_length_pos [of n] bit_length_le [of n 32]
  by (simp add: randbelow_def randbelow_loop_step)

lemma sample_weather_zero_stream:
  "sample_weather (sconst 0) =
     Some (Inr \<lparr>condition = ''Clear'', temperature = 20, humidity = 40\<rparr>, sconst 0)"
  by (simp add: sample_weather_def choice_def weather_conditions_def randbelow_zero_stream
      py_bind_apply py_state_apply run_state_uniform run_state_random_random)

lemma route_monitor_zero_stream:
  "route_monitor (fresh_run p (sconst 0)) = Some (Inr (), (fresh_run p (sconst 0))\<lparr>app_page :=
     [Header ''Route Weather Monitor'',
      Columns [[Metric ''Weather'' ''Clear''], [Metric ''Temperature'' (''20.0'' @ temperature_suffix)],
               [Metric ''Humidity'' ''40.0%'']],
      Warning ''Recommended Speed Limit: 1000 km/h'']\<rparr>)"
proof -
  have "format_fixed 1 20 = ''20.0''" "format_fixed 1 40 = ''40.0''"
    by (simp_all add: format_fixed_def round_half_even_def nat_digits.simps Let_def digit_char_def)
  then show ?thesis
    by (simp add: route_monitor_def sample_weather_zero_stream py_bind_apply st_emit_def
        with_rng_def st_columns_def speed_limit_text fresh_run_def)
qed

theorem route_monitor_page_witness:
  "\<exists>r s'. route_monitor (fresh_run None (sconst 0)) = Some (r, s')
     \<and> r = Inr () \<and> app_pods s' = app_pods (fresh_run None (sconst 0))
     \<and> (\<exists>w :: weather. condition w \<in> set weather_conditions
        \<and> 20 \<le> temperature w \<and> temperature w < 35 \<and> 40 \<le> humidity w \<and> humidity w < 90
        \<and> app_page s' = app_page (fresh_run None (sconst 0)) @
             [Header ''Route Weather Monitor'',
              Columns [[Metric ''Weather'' (condition w)],
                       [Metric ''Temperature'' (format_fixed 1 (temperature w) @ temperature_suffix)],
                       [Metric ''Humidity'' (format_fixed 1 (humidity w) @ ''%'')]],
              Warning (''Recommended Speed Limit: '' @ (if condition w = ''Clear'' then ''1000'' else ''700'')
                       @ '' km/h'')])"
  using route_monitor_page [OF route_monitor_zero_stream] route_monitor_zero_stream by blast

theorem route_monitor_returns_witness:
  "unat (drop_bit 30 (snth (app_rng (fresh_run None (sconst 0))) 0)) < (3::nat)
   \<and> (\<exists>s'. route_monitor (fresh_run None (sconst 0)) = Some (Inr (), s'))"
proof -
  have h: "unat (drop_bit 30 (snth (app_rng (fresh_run None (sconst 0))) 0)) < (3::nat)"
    by (simp add: fresh_run_def)
  show ?thesis using h route_monitor_returns [OF h] by blast
qed

lemma energy_section_zero_stream:
  "energy_section (fresh_run p (sconst 0)) = Some (Inr (), (fresh_run p (sconst 0))\<lparr>app_page :=
     [Header ''Energy Optimization'', Info ''Optimize pod aerodynamics to reduce energy consumption'']\<rparr>)"
  by (simp add: energy_section_def choice_def energy_tips_def randbelow_zero_stream py_bind_apply
      st_emit_def with_rng_def fresh_run_def)

theorem energy_section_page_witness:
  "\<exists>r s'. energy_section (fresh_run None (sconst 0)) = Some (r, s')
     \<and> r = Inr () \<and> app_pods s' = app_pods (fresh_run None (sconst 0))
     \<and> (\<exists>tip \<in> set energy_tips.
          app_page s' = app_page (fresh_run None (sconst 0)) @ [Header ''Energy Optimization'', Info tip])"
  using energy_section_page [OF energy_section_zero_stream] energy_section_zero_stream by blast

theorem energy_section_returns_witness:
  "unat (drop_bit 29 (snth (app_rng (fresh_run None (sconst 0))) 0)) < (4::nat)
   \<and> (\<exists>s'. energy_section (fresh_run None (sconst 0)) = Some (Inr (), s'))"
proof -
  have h: "unat (drop_bit 29 (snth (app_rng (fresh_run None (sconst 0))) 0)) < (4::nat)"
    by (simp add: fresh_run_def)
  show ?thesis using h energy_section_returns [OF h] by blast
qed

section \<open>When the panels return\<close>

lemma route_monitor_result:
  assumes "route_monitor s = Some (r, s')"
  shows "r = Inr () \<and> (\<exists>i. unat (drop_bit 30 (snth (app_rng s) i)) < 3)"
proof -
  obtain v g where sw: "sample_weather (app_rng s) = Some (v, g)"
    using assms by (cases "sample_weather (app_rng s)")
      (auto simp: route_monitor_def py_bind_apply st_emit_def with_rng_def)
  obtain w where "v = Inr w" using sample_weather_result [OF sw] by blast
  then have r: "r = Inr ()"
    using assms sw by (auto simp: route_monitor_def py_bind_apply st_emit_def with_rng_def
        st_columns_def)
  obtain c g1 where c: "choice weather_conditions (app_rng s) = Some (c, g1)"
    using sw by (cases "choice weather_conditions (app_rng s)") (auto simp: sample_weather_def py_bind_apply)
  have len: "length weather_conditions = 3" by (simp add: weather_conditions_def)
  have "\<exists>i. unat (drop_bit (32 - bit_length (length weather_conditions)) (snth (app_rng s) i))
      < length weather_conditions"
    using c by (rule choice_acceptable) (simp_all add: weather_conditions_def)
  then have "\<exists>i. unat (drop_bit 30 (snth (app_rng s) i)) < 3"
    unfolding len bit_length_3 by simp
  with r show ?thesis by blast
qed

lemma energy_section_result:
  assumes "energy_section s = Some (r, s')"
  shows "r = Inr () \<and> (\<exists>i. unat (drop_bit 29 (snth (app_rng s) i)) < 4)"
proof -
  obtain v g where c: "choice energy_tips (app_rng s) = Some (v, g)"
    using assms by (cases "choice energy_tips (app_rng s)")
      (auto simp: energy_section_def py_bind_apply st_emit_def with_rng_def)
  have "v \<noteq> Inl e" for e using choice_no_raise [of energy_tips] c by (auto simp: energy_tips_def)
  then obtain tip where "v = Inr tip" by (cases v) auto
  then have r: "r = Inr ()"
    using assms c by (auto simp: energy_section_def py_bind_apply st_emit_def with_rng_def)
  have len: "length energy_tips = 4" by (simp add: energy_tips_def)
  have "\<exists>i. unat (drop_bit (32 - bit_length (length energy_tips)) (snth (app_rng s) i))
      < length energy_tips"
    using c by (rule choice_acceptable) (simp_all add: energy_tips_def)
  then have "\<exists>i. unat (drop_bit 29 (snth (app_rng s) i)) < 4"
    unfolding len bit_length_4 by simp
  with r show ?thesis by blast
qed

text \<open>C11: termination of the weather panel. A run of \<open>route_monitor\<close> either never
  returns or returns normally, and it returns exactly when the generator has an output,
  at or after its current position, whose top two bits are not both set: the rejection
  loop of \<open>random.choice\<close> over the three conditions accepts exactly those.\<close>

theorem route_monitor_terminates:
  "(route_monitor s = None \<or> (\<exists>s'. route_monitor s = Some (Inr (), s')))
   \<and> ((\<exists>s'. route_monitor s = Some (Inr (), s'))
       \<longleftrightarrow> (\<exists>i. unat (drop_bit 30 (snth (app_rng s) i)) < 3))"
proof (cases "route_monitor s")
  case None
  then show ?thesis using route_monitor_returns [of s] by fastforce
next
  case (Some res)
  then obtain r s' where "route_monitor s = Some (r, s')" by (cases res) auto
  then show ?thesis using route_monitor_result [of s r s'] route_monitor_returns by auto
qed

text \<open>C12: termination of the energy panel. A run of \<open>energy_section\<close> either never
  returns or returns normally, and it returns exactly when the generator has an output,
  at or after its current position, whose top three bits encode a number below 4 (its top
  bit is clear).\<close>

theorem energy_section_terminates:
  "(energy_section s = None \<or> (\<exists>s'. energy_section s = Some (Inr (), s')))
   \<and> ((\<exists>s'. energy_section s = Some (Inr (), s'))
       \<longleftrightarrow> (\<exists>i. unat (drop_bit 29 (snth (app_rng s) i)) < 4))"
proof (cases "energy_section s")
  case None
  then show ?thesis using energy_section_returns [of s] by fastforce
next
  case (Some res)
  then obtain r s' where "energy_section s = Some (r, s')" by (cases res) auto
  then show ?thesis using energy_section_result [of s r s'] energy_section_returns by auto
qed

end
