(* ===== verification/Comparison.thy ===== *)
theory Comparison
  imports Ui
begin

text \<open>
  \<open>pod_comparison\<close> (\<open>src/main.py\<close> lines 168--207): two selectboxes over the
  \<open>Pod Name\<close> column, and, when both selections are truthy, the first row of each name
  (\<open>pods[pods['Pod Name'] == pod].iloc[0]\<close>, IndexError when no row has it) drawn as
  two bar traces over the parameters Speed and Battery. The results: with selections
  taken from the selectboxes the lookup never fails and the bars carry exactly the stored
  values; a name missing from the fleet raises IndexError.
\<close>

section \<open>Lookup and chart\<close>

text \<open>\<open>pods[pods['Pod Name'] == name].iloc[0]\<close>.\<close>

definition lookup_pod :: "fleet \<Rightarrow> string \<Rightarrow> py_error + pod" where
  "lookup_pod pods name = py_first (filter (\<lambda>p. pod_name p = name) pods)"

text \<open>Truthiness of a selectbox value: \<open>None\<close> and the empty string are false.\<close>

definition py_truthy :: "string option \<Rightarrow> bool" where
  "py_truthy v = (case v of None \<Rightarrow> False | Some x \<Rightarrow> x \<noteq> [])"

definition comparison_parameters :: "string list" where
  "comparison_parameters = [''Speed (km/h)'', ''Battery (%)'']"

definition comparison_layout :: "(string \<times> string) list" where
  "comparison_layout =
     [(''barmode'', ''group''), (''plot_bgcolor'', ''rgba(0,0,0,0)''),
      (''paper_bgcolor'', ''rgba(0,0,0,0)''), (''font_color'', ''#00ff00''),
      (''title_text'', ''Pod Performance Comparison''), (''title_font_color'', ''#00ff00'')]"

definition comparison_figure :: "string \<Rightarrow> pod \<Rightarrow> string \<Rightarrow> pod \<Rightarrow> figure" where
  "comparison_figure name1 data1 name2 data2 =
     \<lparr>fig_traces =
        [Bar name1 comparison_parameters [speed_kmh data1, battery_pct data1] ''#00ff00'',
         Bar name2 comparison_parameters [speed_kmh data2, battery_pct data2] ''#004400''],
      fig_layout = comparison_layout\<rparr>"

section \<open>The comparison\<close>

definition pod_comparison :: "nat \<Rightarrow> nat \<Rightarrow> unit st" where
  "pod_comparison i1 i2 =
     py_bind (st_emit (Header ''Pod Comparison'')) (\<lambda>_.
     py_bind get_pods (\<lambda>pods.
     py_bind (st_columns
                [selectbox ''Select First Pod'' (map pod_name pods) i1,
                 selectbox ''Select Second Pod'' (map pod_name pods) i2]) (\<lambda>sel.
     if py_truthy (sel ! 0) \<and> py_truthy (sel ! 1) then
       py_bind get_pods (\<lambda>pods1.
       py_bind (py_lift (lookup_pod pods1 (the (sel ! 0)))) (\<lambda>data1.
       py_bind get_pods (\<lambda>pods2.
       py_bind (py_lift (lookup_pod pods2 (the (sel ! 1)))) (\<lambda>data2.
       st_emit (PlotlyChart (comparison_figure (the (sel ! 0)) data1 (the (sel ! 1)) data2) True)))))
     else py_return ())))"


section \<open>Lookup and chart: results\<close>

lemma lookup_pod_found:
  assumes "n \<in> pod_name ` set pods"
  shows "\<exists>p. lookup_pod pods n = Inr p \<and> p \<in> set pods \<and> pod_name p = n"
proof -
  obtain p ps where f: "filter (\<lambda>p. pod_name p = n) pods = p # ps"
    using assms by (cases "filter (\<lambda>p. pod_name p = n) pods") (auto simp: filter_empty_conv)
  then have "p \<in> set (filter (\<lambda>p. pod_name p = n) pods)" by simp
  then have "p \<in> set pods \<and> pod_name p = n" by simp
  with f show ?thesis by (simp add: lookup_pod_def)
qed

text \<open>C26: the lookup of the comparison raises IndexError exactly when no row carries
  the name (a name the selectbox did not offer).\<close>

theorem lookup_pod_error:
  "lookup_pod pods n = Inl IndexError \<longleftrightarrow> n \<notin> pod_name ` set pods"
proof -
  have "lookup_pod pods n = Inl IndexError \<longleftrightarrow> filter (\<lambda>p. pod_name p = n) pods = []"
    by (simp add: lookup_pod_def py_first_def split: list.split)
  then show ?thesis by (auto simp: filter_empty_conv)
qed

theorem lookup_pod_error_witness:
  "lookup_pod example_fleet ''Avishkar-9'' = Inl IndexError
   \<and> ''Avishkar-9'' \<notin> pod_name ` set example_fleet"
proof -
  have "''Avishkar-9'' \<notin> pod_name ` set example_fleet" by (simp add: example_fleet_def)
  then show ?thesis using lookup_pod_error [of example_fleet "''Avishkar-9''"] by blast
qed

text \<open>C25: on a session whose pods all have non-empty names, the comparison writes its
  header, the two selectboxes showing the selected names, and a chart whose two bar
  traces carry exactly the stored speed and battery of a row of each selected name (the
  first such row); it never raises and leaves the fleet as it is.\<close>

theorem pod_comparison_page:
  assumes "app_pods s = Some pods" "pods \<noteq> []" "\<forall>p \<in> set pods. pod_name p \<noteq> []"
  shows "\<exists>p1 p2. p1 \<in> set pods \<and> p2 \<in> set pods
    \<and> selectbox_value (map pod_name pods) i1 = Some (pod_name p1)
    \<and> selectbox_value (map pod_name pods) i2 = Some (pod_name p2)
    \<and> pod_comparison i1 i2 s = Some (Inr (), s\<lparr>app_page := app_page s @
        [Header ''Pod Comparison'',
         Columns [[Selectbox ''Select First Pod'' (map pod_name pods) (Some (pod_name p1))],
                  [Selectbox ''Select Second Pod'' (map pod_name pods) (Some (pod_name p2))]],
         PlotlyChart (comparison_figure (pod_name p1) p1 (pod_name p2) p2) True]\<rparr>)"
proof -
  have ne: "map pod_name pods \<noteq> []" using assms(2) by simp
  obtain n1 where n1: "selectbox_value (map pod_name pods) i1 = Some n1" "n1 \<in> pod_name ` set pods"
    using selectbox_value_in_options [OF ne, of i1] by auto
  obtain n2 where n2: "selectbox_value (map pod_name pods) i2 = Some n2" "n2 \<in> pod_name ` set pods"
    using selectbox_value_in_options [OF ne, of i2] by auto
  obtain p1 where p1: "lookup_pod pods n1 = Inr p1" "p1 \<in> set pods" "pod_name p1 = n1"
    using lookup_pod_found [OF n1(2)] by blast
  obtain p2 where p2: "lookup_pod pods n2 = Inr p2" "p2 \<in> set pods" "pod_name p2 = n2"
    using lookup_pod_found [OF n2(2)] by blast
  have t: "py_truthy (Some n1)" "py_truthy (Some n2)"
    using assms(3) p1(2,3) p2(2,3) by (auto simp: py_truthy_def)
  have "pod_comparison i1 i2 s = Some (Inr (), s\<lparr>app_page := app_page s @
        [Header ''Pod Comparison'',
         Columns [[Selectbox ''Select First Pod'' (map pod_name pods) (Some n1)],
                  [Selectbox ''Select Second Pod'' (map pod_name pods) (Some n2)]],
         PlotlyChart (comparison_figure n1 p1 n2 p2) True]\<rparr>)"
    using assms(1) n1(1) n2(1) p1(1) p2(1) t
    by (simp add: pod_comparison_def py_bind_apply st_emit_def get_pods_def st_columns_def
        selectbox_def py_lift_def)
  then show ?thesis using p1 p2 n1(1) n2(1) by blast
qed


theorem pod_comparison_page_witness:
  "\<exists>p1 p2. app_pods (fresh_run (Some example_fleet) (sconst 0)) = Some example_fleet
    \<and> example_fleet \<noteq> [] \<and> (\<forall>p \<in> set example_fleet. pod_name p \<noteq> [])
    \<and> p1 \<in> set example_fleet \<and> p2 \<in> set example_fleet
    \<and> selectbox_value (map pod_name example_fleet) 0 = Some (pod_name p1)
    \<and> selectbox_value (map pod_name example_fleet) 1 = Some (pod_name p2)
    \<and> pod_comparison 0 1 (fresh_run (Some example_fleet) (sconst 0))
        = Some (Inr (), (fresh_run (Some example_fleet) (sconst 0))\<lparr>app_page :=
           app_page (fresh_run (Some example_fleet) (sconst 0)) @
        [Header ''Pod Comparison'',
         Columns [[Selectbox ''Select First Pod'' (map pod_name example_fleet) (Some (pod_name p1))],
                  [Selectbox ''Select Second Pod'' (map pod_name example_fleet) (Some (pod_name p2))]],
         PlotlyChart (comparison_figure (pod_name p1) p1 (pod_name p2) p2) True]\<rparr>)"
proof -
  have h: "app_pods (fresh_run (Some example_fleet) (sconst 0)) = Some example_fleet"
      "example_fleet \<noteq> []" "\<forall>p \<in> set example_fleet. pod_name p \<noteq> []"
    by (simp_all add: fresh_run_def example_fleet_def)
  show ?thesis using h pod_comparison_page [OF h, of 0 1] by blast
qed

text \<open>With pods in the session the comparison always returns, whatever is selected, and
  touches neither the pods nor the generator.\<close>

lemma pod_comparison_returns:
  assumes "app_pods s = Some pods"
  shows "\<exists>s'. pod_comparison i1 i2 s = Some (Inr (), s') \<and> app_pods s' = app_pods s
    \<and> app_rng s' = app_rng s"
proof (cases "py_truthy (selectbox_value (map pod_name pods) i1)
            \<and> py_truthy (selectbox_value (map pod_name pods) i2)")
  case True
  then have ne: "map pod_name pods \<noteq> []" by (auto simp: py_truthy_def selectbox_value_def)
  obtain n1 where n1: "selectbox_value (map pod_name pods) i1 = Some n1" "n1 \<in> pod_name ` set pods"
    using selectbox_value_in_options [OF ne, of i1] by auto
  obtain n2 where n2: "selectbox_value (map pod_name pods) i2 = Some n2" "n2 \<in> pod_name ` set pods"
    using selectbox_value_in_options [OF ne, of i2] by auto
  obtain p1 where p1: "lookup_pod pods n1 = Inr p1" using lookup_pod_found [OF n1(2)] by blast
  obtain p2 where p2: "lookup_pod pods n2 = Inr p2" using lookup_pod_found [OF n2(2)] by blast
  show ?thesis
    using assms True n1(1) n2(1) p1 p2
    by (simp add: pod_comparison_def py_bind_apply st_emit_def get_pods_def st_columns_def
        selectbox_def py_lift_def)
next
  case False
  then show ?thesis
    using assms
    by (auto simp: pod_comparison_def py_bind_apply st_emit_def get_pods_def st_columns_def
        selectbox_def)
qed

lemma keeps_pods_pod_comparison [keeps_pods_intros]: "keeps_pods (pod_comparison i1 i2)"
  unfolding pod_comparison_def by (intro keeps_pods_intros) (simp_all add: keeps_pods_intros)

end
