(* ===== verification/Session.thy ===== *)
theory Session
  imports Styling Tracker Widgets Comparison
begin

text \<open>
  A run of the whole script (\<open>src/main.py\<close> lines 11--108 and 209--225) and the server
  that reruns it. Streamlit executes the file from the top on every interaction of a
  browser session: the title, the creation of \<open>st.session_state.pods\<close> when the session
  has none, then \<open>main()\<close>: the update, the tracker, a divider, the weather and energy
  panels side by side, a divider, the comparison. Each session keeps its own
  \<open>session_state\<close>; the \<open>random\<close> module's generator is one per process, shared
  by all sessions. The server is a record of the generator and the sessions' pods, a
  rerun one step of it, and \<open>reachable\<close> the states the server can reach. The
  results: every reachable session holds the three Avishkar pods with batteries in
  \<open>[0, 100]\<close> and speeds at most 1000; a reachable session has a negative speed; a
  rerun updates the pods once and keeps their statuses; a rerun returns normally whenever
  the generator keeps producing outputs with a clear top bit.
\<close>

section \<open>One run of the script\<close>

text \<open>The selections the user has made in the four selectboxes, as indices into their
  options (see \<open>selectbox_value\<close>).\<close>

record ui_input =
  in_status_filter :: nat
  in_sort_by :: nat
  in_pod1 :: nat
  in_pod2 :: nat

text \<open>Lines 102--108: \<open>if 'pods' not in st.session_state: st.session_state.pods = \<dots>\<close>.\<close>

definition init_session :: "unit st" where
  "init_session = (\<lambda>s. case app_pods s of
      None \<Rightarrow> py_bind (with_rng init_pods) set_pods s
    | Some _ \<Rightarrow> py_return () s)"

text \<open>Lines 110--114 as a call of the script: the loop reads the session's pods
  (AttributeError when there are none) and writes every updated row back.\<close>

definition update_session :: "unit st" where
  "update_session =
     py_bind get_pods (\<lambda>pods.
     py_bind (with_rng (py_state (update_pod_data pods))) set_pods)"

text \<open>Lines 209--221, \<open>main()\<close>.\<close>

definition main :: "ui_input \<Rightarrow> unit st" where
  "main inp =
     py_bind update_session (\<lambda>_.
     py_bind (pod_tracker (in_status_filter inp) (in_sort_by inp)) (\<lambda>_.
     py_bind (st_emit Divider) (\<lambda>_.
     py_bind (st_columns [route_monitor, energy_section]) (\<lambda>_.
     py_bind (st_emit Divider) (\<lambda>_.
     pod_comparison (in_pod1 inp) (in_pod2 inp))))))"

text \<open>Lines 11--99: the page configuration, the style sheet and the title.\<close>

definition script_header :: "unit st" where
  "script_header =
     py_bind set_page_config (\<lambda>_.
     py_bind apply_style (\<lambda>_.
     st_emit (Title ''Avishkar Hyperloop Control Center'')))"

text \<open>The whole file; \<open>__name__\<close> is \<open>"__main__"\<close> under \<open>streamlit run\<close>,
  so line 225 calls \<open>main()\<close>.\<close>

definition run_script :: "ui_input \<Rightarrow> unit st" where
  "run_script inp =
     py_bind script_header (\<lambda>_.
     py_bind init_session (\<lambda>_.
     main inp))"

text \<open>What the first lines of every run write.\<close>

definition header_page :: "element list" where
  "header_page = [PageConfig page_title page_layout, Markdown style_sheet True,
                  Title ''Avishkar Hyperloop Control Center'']"

section \<open>The server\<close>

type_synonym session_id = nat

record server =
  srv_rng :: rng
  srv_sessions :: "session_id \<Rightarrow> fleet option"

definition server_start :: "rng \<Rightarrow> server" where
  "server_start g = \<lparr>srv_rng = g, srv_sessions = (\<lambda>_. None)\<rparr>"

text \<open>A rerun of session \<open>sid\<close> with the user's selections: the script runs on an
  empty page with the session's pods and the process's generator; the page it wrote
  (also when it raised) is sent, the session keeps the pods as they are at the end, and
  the generator stays where the run left it.\<close>

definition rerun :: "session_id \<Rightarrow> ui_input \<Rightarrow> server
    \<Rightarrow> ((py_error + unit) \<times> element list \<times> server) option" where
  "rerun sid inp srv =
     (case run_script inp (fresh_run (srv_sessions srv sid) (srv_rng srv)) of
        None \<Rightarrow> None
      | Some (r, s) \<Rightarrow> Some (r, app_page s,
          srv\<lparr>srv_rng := app_rng s, srv_sessions := (srv_sessions srv)(sid := app_pods s)\<rparr>))"

inductive reachable :: "server \<Rightarrow> bool" where
  start: "reachable (server_start g)"
| step: "reachable srv \<Longrightarrow> rerun sid inp srv = Some (r, page, srv') \<Longrightarrow> reachable srv'"

section \<open>The invariant\<close>

definition fleet_ok :: "fleet \<Rightarrow> bool" where
  "fleet_ok pods \<longleftrightarrow> map pod_name pods = pod_names \<and> list_all pod_ok pods"

definition session_ok :: "fleet option \<Rightarrow> bool" where
  "session_ok po = (case po of None \<Rightarrow> True | Some pods \<Rightarrow> fleet_ok pods)"

definition server_ok :: "server \<Rightarrow> bool" where
  "server_ok srv \<longleftrightarrow> (\<forall>sid. session_ok (srv_sessions srv sid))"

text \<open>A computation that keeps a property of the session's pods, whenever it stops.\<close>

definition preserves :: "(fleet option \<Rightarrow> bool) \<Rightarrow> 'a st \<Rightarrow> bool" where
  "preserves P m \<longleftrightarrow> (\<forall>s r s'. m s = Some (r, s') \<longrightarrow> P (app_pods s) \<longrightarrow> P (app_pods s'))"

named_theorems preserves_intros "calls of a run that keep a property of the session's pods"

section \<open>Termination, and the generator that outputs only zeros\<close>

text \<open>A generator that, from every position on, still produces an output whose top bit
  is clear.\<close>

definition often_low :: "rng \<Rightarrow> bool" where
  "often_low g \<longleftrightarrow> (\<forall>i. \<exists>j\<ge>i. unat (snth g j) < 2 ^ 31)"

text \<open>A computation that, on a session with pods and such a generator, returns normally,
  leaves pods in the session and only consumes generator outputs.\<close>

definition runs_well :: "'a st \<Rightarrow> bool" where
  "runs_well m \<longleftrightarrow> (\<forall>s. app_pods s \<noteq> None \<longrightarrow> often_low (app_rng s) \<longrightarrow>
     (\<exists>x s' k. m s = Some (Inr x, s') \<and> app_pods s' \<noteq> None \<and> app_rng s' = sdrop k (app_rng s)))"

named_theorems runs_well_intros "calls of a run that return on a session with pods"

text \<open>On that generator every \<open>uniform(a, b)\<close> returns \<open>a\<close> and every
  \<open>choice\<close> and \<open>choices\<close> the first option: a new session's pods start at
  600 km/h and 60 percent, all Operational, and every rerun takes 50 km/h off each
  speed and nothing off the batteries.\<close>

definition zero_update :: "pod \<Rightarrow> pod" where
  "zero_update p =
     (if status p = Operational
      then p\<lparr>speed_kmh := min 1000 (speed_kmh p - 50), battery_pct := max 0 (min 100 (battery_pct p))\<rparr>
      else p)"

definition zero_fleet :: "nat \<Rightarrow> fleet" where
  "zero_fleet n = map (\<lambda>name. \<lparr>pod_name = name, speed_kmh = 600 - 50 * real n, battery_pct = 60,
                              status = Operational\<rparr>) pod_names"

definition zero_server :: "nat \<Rightarrow> server" where
  "zero_server n = \<lparr>srv_rng = sconst 0, srv_sessions = (\<lambda>_. None)(0 := Some (zero_fleet n))\<rparr>"

text \<open>Streamlit's defaults: every selectbox shows its first option.\<close>

definition default_input :: ui_input where
  "default_input = \<lparr>in_status_filter = 0, in_sort_by = 0, in_pod1 = 0, in_pod2 = 0\<rparr>"


section \<open>The invariant: proofs\<close>

lemma preserves_keeps [preserves_intros]: "keeps_pods m \<Longrightarrow> preserves P m"
  by (simp add: preserves_def keeps_pods_def)

lemma preserves_bind [preserves_intros]:
  "preserves P m \<Longrightarrow> (\<And>x. preserves P (f x)) \<Longrightarrow> preserves P (py_bind m f)"
  unfolding preserves_def py_bind_def by (fastforce split: option.splits sum.splits)

lemma fleet_ok_init:
  "init_pods g = Some (Inr pods, g') \<Longrightarrow> fleet_ok pods"
  using init_pods_result [of g] by (auto simp: fleet_ok_def pod_ok_def list_all_iff)

lemma fleet_ok_update:
  assumes "fleet_ok pods"
  shows "fleet_ok (fst (run_state (update_pod_data pods) g))"
proof -
  have all2: "list_all2 update_allowed pods (fst (run_state (update_pod_data pods) g))"
    unfolding run_update_pod_data by (rule traverse_update_pod_allowed)
  have "map pod_name (fst (run_state (update_pod_data pods) g)) = map pod_name pods"
    using update_pod_data_keeps by blast
  moreover have "list_all pod_ok pods" using assms by (simp add: fleet_ok_def)
  with all2 have "list_all pod_ok (fst (run_state (update_pod_data pods) g))"
    by (induction rule: list_all2_induct) (auto dest: update_allowed_ok)
  ultimately show ?thesis using assms by (simp add: fleet_ok_def)
qed

lemma preserves_init_session [preserves_intros]: "preserves session_ok init_session"
  unfolding preserves_def
  by (auto simp: init_session_def py_bind_apply with_rng_def set_pods_def session_ok_def
      split: option.splits sum.splits dest: fleet_ok_init)

lemma preserves_update_session [preserves_intros]: "preserves session_ok update_session"
  unfolding preserves_def
  by (auto simp: update_session_def py_bind_apply get_pods_def with_rng_def set_pods_def
      py_state_apply session_ok_def fleet_ok_update split: option.splits)

lemma preserves_run_script: "preserves session_ok (run_script inp)"
  unfolding run_script_def main_def script_header_def set_page_config_def apply_style_def
  by (intro preserves_intros keeps_pods_intros) (simp_all add: keeps_pods_intros)

lemma rerun_server_ok:
  assumes "server_ok srv" "rerun sid inp srv = Some (r, page, srv')"
  shows "server_ok srv'"
proof -
  obtain s where run: "run_script inp (fresh_run (srv_sessions srv sid) (srv_rng srv)) = Some (r, s)"
    and srv': "srv' = srv\<lparr>srv_rng := app_rng s, srv_sessions := (srv_sessions srv)(sid := app_pods s)\<rparr>"
    using assms(2) by (auto simp: rerun_def split: option.splits)
  have "session_ok (app_pods s)"
    using preserves_run_script [unfolded preserves_def, rule_format, OF run] assms(1)
    by (simp add: server_ok_def fresh_run_def)
  with assms(1) show ?thesis by (simp add: server_ok_def srv')
qed

lemma reachable_server_ok: "reachable srv \<Longrightarrow> server_ok srv"
proof (induction rule: reachable.induct)
  case (start g)
  then show ?case by (simp add: server_ok_def server_start_def session_ok_def)
next
  case (step srv sid inp r page srv')
  then show ?case using rerun_server_ok by blast
qed

lemma reachable_fleet_ok: "reachable srv \<Longrightarrow> srv_sessions srv sid = Some pods \<Longrightarrow> fleet_ok pods"
  using reachable_server_ok [unfolded server_ok_def, rule_format, of srv sid]
  by (simp add: session_ok_def)

section \<open>Termination of a run\<close>

lemma often_low_sdrop: "often_low g \<Longrightarrow> often_low (sdrop k g)"
  unfolding often_low_def
proof
  fix i assume "\<forall>i. \<exists>j\<ge>i. unat (snth g j) < 2 ^ 31"
  then obtain j where "k + i \<le> j" "unat (snth g j) < 2 ^ 31" by blast
  then show "\<exists>j\<ge>i. unat (snth (sdrop k g) j) < 2 ^ 31"
    by (intro exI [of _ "j - k"]) (simp add: sdrop_snth)
qed

lemma top_bit_clear:
  assumes "unat (w :: 32 word) < 2 ^ 31"
  shows "unat (drop_bit 30 w) < 3" "unat (drop_bit 29 w) < 4"
proof -
  have "unat w div 2 ^ 30 < 2" "unat w div 2 ^ 29 < 4"
    using assms by (simp_all add: less_mult_imp_div_less)
  then show "unat (drop_bit 30 w) < 3" "unat (drop_bit 29 w) < 4"
    by (subst unat_drop_bit_eq, simp add: drop_bit_eq_div)+
qed

lemma often_low_top_bit:
  assumes "often_low g"
  obtains i where "unat (drop_bit 30 (snth g i)) < 3" "unat (drop_bit 29 (snth g i)) < 4"
  using assms top_bit_clear unfolding often_low_def by blast

lemma runs_well_bind [runs_well_intros]:
  assumes m: "runs_well m" and f: "\<And>x. runs_well (f x)"
  shows "runs_well (py_bind m f)"
  unfolding runs_well_def
proof (intro allI impI)
  fix s :: app assume p: "app_pods s \<noteq> None" and g: "often_low (app_rng s)"
  obtain x s1 k1 where 1: "m s = Some (Inr x, s1)" "app_pods s1 \<noteq> None" "app_rng s1 = sdrop k1 (app_rng s)"
    using m p g unfolding runs_well_def by blast
  have "often_low (app_rng s1)" using g 1(3) by (simp add: often_low_sdrop)
  then obtain y s2 k2 where 2: "f x s1 = Some (Inr y, s2)" "app_pods s2 \<noteq> None" "app_rng s2 = sdrop k2 (app_rng s1)"
    using f 1(2) unfolding runs_well_def by blast
  show "\<exists>y s' k. py_bind m f s = Some (Inr y, s') \<and> app_pods s' \<noteq> None \<and> app_rng s' = sdrop k (app_rng s)"
    using 1 2 by (simp add: py_bind_apply) blast
qed

lemma runs_well_emit [runs_well_intros]: "runs_well (st_emit e)"
  unfolding runs_well_def st_emit_def by (auto intro: exI [of _ 0])

lemma runs_well_col_blocks:
  "list_all runs_well bs \<Longrightarrow> runs_well (col_blocks bs outer cols)"
proof (induction bs arbitrary: cols)
  case Nil
  then show ?case unfolding runs_well_def by (auto intro: exI [of _ 0])
next
  case (Cons b bs)
  show ?case
    unfolding runs_well_def
  proof (intro allI impI)
    fix s :: app assume p: "app_pods s \<noteq> None" and g: "often_low (app_rng s)"
    have b: "runs_well b" and bs: "list_all runs_well bs" using Cons.prems by simp_all
    obtain x s1 k1 where 1: "b (s\<lparr>app_page := []\<rparr>) = Some (Inr x, s1)" "app_pods s1 \<noteq> None"
        "app_rng s1 = sdrop k1 (app_rng s)"
      using b [unfolded runs_well_def, rule_format, of "s\<lparr>app_page := []\<rparr>"] p g by auto
    have "often_low (app_rng s1)" using g 1(3) by (simp add: often_low_sdrop)
    then obtain xs s2 k2 where 2: "col_blocks bs outer (cols @ [app_page s1]) s1 = Some (Inr xs, s2)"
        "app_pods s2 \<noteq> None" "app_rng s2 = sdrop k2 (app_rng s1)"
      using Cons.IH [OF bs, of "cols @ [app_page s1]", unfolded runs_well_def, rule_format, of s1] 1(2)
      by blast
    show "\<exists>y s' k. col_blocks (b # bs) outer cols s = Some (Inr y, s') \<and> app_pods s' \<noteq> None
        \<and> app_rng s' = sdrop k (app_rng s)"
      using 1 2 by simp blast
  qed
qed

lemma runs_well_columns [runs_well_intros]:
  "list_all runs_well bs \<Longrightarrow> runs_well (st_columns bs)"
  using runs_well_col_blocks unfolding runs_well_def st_columns_def by fast

lemma runs_well_update_session [runs_well_intros]: "runs_well update_session"
  unfolding runs_well_def
  by (auto simp: update_session_def py_bind_apply get_pods_def with_rng_def set_pods_def
      py_state_apply run_update_pod_data traverse_update_pod_draws)

lemma runs_well_pod_tracker [runs_well_intros]: "runs_well (pod_tracker i j)"
  unfolding runs_well_def
  by (metis keeps_podsD keeps_pods_pod_tracker pod_tracker_returns sdrop.simps(1) not_None_eq)

lemma runs_well_pod_comparison [runs_well_intros]: "runs_well (pod_comparison i1 i2)"
  unfolding runs_well_def
  by (metis pod_comparison_returns sdrop.simps(1) not_None_eq)

lemma runs_well_route_monitor [runs_well_intros]: "runs_well route_monitor"
  unfolding runs_well_def
proof (intro allI impI)
  fix s :: app assume p: "app_pods s \<noteq> None" and g: "often_low (app_rng s)"
  obtain i where "unat (drop_bit 30 (snth (app_rng s) i)) < 3" using often_low_top_bit [OF g] by blast
  then obtain s' where r: "route_monitor s = Some (Inr (), s')" using route_monitor_returns by blast
  then show "\<exists>x s' k. route_monitor s = Some (Inr x, s') \<and> app_pods s' \<noteq> None
      \<and> app_rng s' = sdrop k (app_rng s)"
    using p keeps_podsD [OF keeps_pods_route_monitor r] route_monitor_draws [OF r] by auto
qed

lemma runs_well_energy_section [runs_well_intros]: "runs_well energy_section"
  unfolding runs_well_def
proof (intro allI impI)
  fix s :: app assume p: "app_pods s \<noteq> None" and g: "often_low (app_rng s)"
  obtain i where "unat (drop_bit 29 (snth (app_rng s) i)) < 4" using often_low_top_bit [OF g] by blast
  then obtain s' where r: "energy_section s = Some (Inr (), s')" using energy_section_returns by blast
  then show "\<exists>x s' k. energy_section s = Some (Inr x, s') \<and> app_pods s' \<noteq> None
      \<and> app_rng s' = sdrop k (app_rng s)"
    using p keeps_podsD [OF keeps_pods_energy_section r] energy_section_draws [OF r] by auto
qed

lemma runs_well_main: "runs_well (main inp)"
  unfolding main_def by (intro runs_well_intros) (simp add: runs_well_intros)


lemma script_header_apply:
  "script_header s = Some (Inr (), s\<lparr>app_page := app_page s @ header_page\<rparr>)"
  by (simp add: script_header_def set_page_config_def apply_style_def header_page_def py_bind_apply
      st_emit_def)

lemma init_session_some: "app_pods s = Some pods \<Longrightarrow> init_session s = Some (Inr (), s)"
  by (simp add: init_session_def)

lemma init_session_none:
  assumes "app_pods s = None"
  shows "\<exists>pods. init_pods (app_rng s) = Some (Inr pods, sdrop 18 (app_rng s))
    \<and> init_session s = Some (Inr (), s\<lparr>app_rng := sdrop 18 (app_rng s), app_pods := Some pods\<rparr>)"
  using assms init_pods_result [of "app_rng s"]
  by (auto simp: init_session_def py_bind_apply with_rng_def set_pods_def)

lemma run_script_returns:
  assumes "often_low g"
  shows "\<exists>s' k. run_script inp (fresh_run po g) = Some (Inr (), s') \<and> app_rng s' = sdrop k g"
proof -
  let ?s = "fresh_run po g\<lparr>app_page := header_page\<rparr>"
  have title: "run_script inp (fresh_run po g) = py_bind init_session (\<lambda>_. main inp) ?s"
    by (simp add: run_script_def py_bind_apply script_header_apply fresh_run_def)
  obtain s1 k1 where s1: "init_session ?s = Some (Inr (), s1)" "app_pods s1 \<noteq> None"
      "app_rng s1 = sdrop k1 g"
  proof (cases po)
    case None
    then show ?thesis using init_session_none [of ?s] that by (auto simp: fresh_run_def)
  next
    case (Some pods)
    then show ?thesis using init_session_some [of ?s pods] that [of ?s 0] by (simp add: fresh_run_def)
  qed
  have "often_low (app_rng s1)" using assms s1(3) by (simp add: often_low_sdrop)
  then obtain x s2 k2 where "main inp s1 = Some (Inr x, s2)" "app_rng s2 = sdrop k2 (app_rng s1)"
    using runs_well_main [unfolded runs_well_def, rule_format, of s1] s1(2) by blast
  then show ?thesis using title s1 by (simp add: py_bind_apply) blast
qed

text \<open>After the update, the rest of \<open>main()\<close> leaves the pods as they are.\<close>

lemma main_pods:
  assumes "app_pods s = Some pods" "main inp s = Some (r, s')"
  shows "app_pods s' = Some (fst (run_state (update_pod_data pods) (app_rng s)))"
proof -
  define rest where "rest = (\<lambda>_ :: unit.
     py_bind (pod_tracker (in_status_filter inp) (in_sort_by inp)) (\<lambda>_.
     py_bind (st_emit Divider) (\<lambda>_.
     py_bind (st_columns [route_monitor, energy_section]) (\<lambda>_.
     py_bind (st_emit Divider) (\<lambda>_.
     pod_comparison (in_pod1 inp) (in_pod2 inp))))))"
  have k: "keeps_pods (rest x)" for x
    unfolding rest_def by (intro keeps_pods_intros) (simp add: keeps_pods_intros)
  let ?s1 = "s\<lparr>app_rng := snd (run_state (update_pod_data pods) (app_rng s)),
                app_pods := Some (fst (run_state (update_pod_data pods) (app_rng s)))\<rparr>"
  have "update_session s = Some (Inr (), ?s1)"
    using assms(1) by (simp add: update_session_def py_bind_apply get_pods_def with_rng_def
        set_pods_def py_state_apply)
  then have "rest () ?s1 = Some (r, s')"
    using assms(2) by (simp add: main_def rest_def py_bind_apply)
  then show ?thesis using keeps_podsD [OF k] by simp
qed

lemma run_script_pods_some:
  assumes "run_script inp (fresh_run (Some pods) g) = Some (r, s')"
  shows "app_pods s' = Some (fst (run_state (update_pod_data pods) g))"
proof -
  let ?s = "fresh_run (Some pods) g\<lparr>app_page := header_page\<rparr>"
  have "main inp ?s = Some (r, s')"
    using assms by (simp add: run_script_def py_bind_apply script_header_apply fresh_run_def init_session_def)
  then show ?thesis using main_pods [of ?s pods] by (simp add: fresh_run_def)
qed

lemma run_script_pods_none:
  assumes "run_script inp (fresh_run None g) = Some (r, s')"
  shows "\<exists>pods. init_pods g = Some (Inr pods, sdrop 18 g)
    \<and> app_pods s' = Some (fst (run_state (update_pod_data pods) (sdrop 18 g)))"
proof -
  let ?s = "fresh_run None g\<lparr>app_page := header_page\<rparr>"
  obtain pods where i: "init_pods g = Some (Inr pods, sdrop 18 g)"
      "init_session ?s = Some (Inr (), ?s\<lparr>app_rng := sdrop 18 g, app_pods := Some pods\<rparr>)"
    using init_session_none [of ?s] by (auto simp: fresh_run_def)
  have "main inp (?s\<lparr>app_rng := sdrop 18 g, app_pods := Some pods\<rparr>) = Some (r, s')"
    using assms i(2) by (simp add: run_script_def py_bind_apply script_header_apply fresh_run_def)
  from main_pods [OF _ this] have "app_pods s' = Some (fst (run_state (update_pod_data pods) (sdrop 18 g)))"
    by simp
  then show ?thesis using i(1) by blast
qed


section \<open>Reruns on the generator that outputs only zeros\<close>

lemma sdrop_sconst [simp]: "sdrop n (sconst x) = sconst x"
  by (induction n) simp_all

lemma often_low_zero: "often_low (sconst 0)"
proof -
  have "snth (sconst (0 :: 32 word)) j = 0" for j by (induction j) simp_all
  then show ?thesis by (auto simp: often_low_def)
qed

lemma update_pod_data_zero:
  assumes "shd g = 0" "stl g = g"
  shows "run_state (update_pod_data pods) g = (map zero_update pods, g)"
  unfolding run_update_pod_data
proof (induction pods)
  case Nil
  then show ?case by simp
next
  case (Cons p ps)
  have "run_state (update_pod p) g = (zero_update p, g)"
    using assms by (cases "status p = Operational")
      (simp_all add: run_state_update_pod_operational run_state_update_pod_frozen run_state_uniform
        run_state_random_random zero_update_def)
  with Cons show ?case by (simp add: split_beta)
qed

lemma init_pods_zero: "init_pods (sconst 0) = Some (Inr (zero_fleet 0), sconst 0)"
  by (simp add: init_pods_def py_bind_apply py_state_apply run_state_uniform run_state_random_random
      choices_def choose_index_def status_population_def make_pods_def pod_names_def zero_fleet_def
      Let_def numeral_3_eq_3)

lemma zero_update_fleet: "map zero_update (zero_fleet n) = zero_fleet (Suc n)"
proof -
  have "min 1000 (600 - 50 * real n - 50) = 600 - 50 * real (Suc n)" by (simp add: min_def)
  then show ?thesis by (simp add: zero_fleet_def zero_update_def pod_names_def)
qed

lemma rerun_zero:
  assumes "srv_rng srv = sconst 0" "srv_sessions srv sid = Some pods"
  shows "\<exists>page. rerun sid inp srv =
    Some (Inr (), page, srv\<lparr>srv_sessions := (srv_sessions srv)(sid := Some (map zero_update pods))\<rparr>)"
proof -
  obtain s' k where run: "run_script inp (fresh_run (Some pods) (sconst 0)) = Some (Inr (), s')"
      "app_rng s' = sdrop k (sconst 0)"
    using run_script_returns [OF often_low_zero] by blast
  have "app_pods s' = Some (map zero_update pods)"
    using run_script_pods_some [OF run(1)] by (simp add: update_pod_data_zero)
  then show ?thesis using run assms by (simp add: rerun_def)
qed

lemma rerun_zero_first:
  assumes "srv_rng srv = sconst 0" "srv_sessions srv sid = None"
  shows "\<exists>page. rerun sid inp srv =
    Some (Inr (), page, srv\<lparr>srv_sessions := (srv_sessions srv)(sid := Some (zero_fleet 1))\<rparr>)"
proof -
  obtain s' k where run: "run_script inp (fresh_run None (sconst 0)) = Some (Inr (), s')"
      "app_rng s' = sdrop k (sconst 0)"
    using run_script_returns [OF often_low_zero] by blast
  have "app_pods s' = Some (zero_fleet 1)"
    using run_script_pods_none [OF run(1)]
    by (simp add: init_pods_zero update_pod_data_zero zero_update_fleet)
  then show ?thesis using run assms by (simp add: rerun_def)
qed

lemma reachable_zero_server: "reachable (zero_server (Suc n))"
proof (induction n)
  case 0
  obtain page where "rerun 0 default_input (server_start (sconst 0)) = Some (Inr (), page, zero_server 1)"
    using rerun_zero_first [of "server_start (sconst 0)" 0 default_input]
    by (auto simp: server_start_def zero_server_def)
  then show ?case using reachable.step [OF reachable.start] by simp
next
  case (Suc n)
  obtain page where "rerun 0 default_input (zero_server (Suc n)) = Some (Inr (), page, zero_server (Suc (Suc n)))"
    using rerun_zero [of "zero_server (Suc n)" 0 "zero_fleet (Suc n)" default_input]
    by (auto simp: zero_server_def zero_update_fleet)
  then show ?case using reachable.step [OF Suc.IH] by blast
qed



section \<open>Properties of the server\<close>

lemma zero_fleet_1_facts:
  "srv_sessions (zero_server 1) 0 = Some (zero_fleet 1)" "hd (zero_fleet 1) \<in> set (zero_fleet 1)"
  by (simp_all add: zero_server_def zero_fleet_def pod_names_def)

lemma rerun_zero_step_1:
  "\<exists>page. rerun 0 default_input (zero_server 1) = Some (Inr (), page, zero_server 2)"
proof -
  have z: "map zero_update (zero_fleet 1) = zero_fleet 2"
    using zero_update_fleet [of 1] by (simp add: numeral_2_eq_2)
  have e: "(zero_server 1)\<lparr>srv_sessions := (srv_sessions (zero_server 1))(0 := Some (map zero_update (zero_fleet 1)))\<rparr>
      = zero_server 2"
    unfolding z by (simp add: zero_server_def)
  have "srv_rng (zero_server 1) = sconst 0" by (simp add: zero_server_def)
  from rerun_zero [OF this zero_fleet_1_facts(1), of default_input] show ?thesis
    unfolding e .
qed

text \<open>C1: in every state the server can reach, every pod of every session has a battery
  reading in \<open>[0, 100]\<close>.\<close>

theorem reachable_battery_range:
  assumes "reachable srv" "srv_sessions srv sid = Some pods" "p \<in> set pods"
  shows "0 \<le> battery_pct p \<and> battery_pct p \<le> 100"
  using reachable_fleet_ok [OF assms(1,2)] assms(3) by (auto simp: fleet_ok_def pod_ok_def list_all_iff)

theorem reachable_battery_range_witness:
  "reachable (zero_server 1) \<and> srv_sessions (zero_server 1) 0 = Some (zero_fleet 1)
   \<and> hd (zero_fleet 1) \<in> set (zero_fleet 1)
   \<and> 0 \<le> battery_pct (hd (zero_fleet 1)) \<and> battery_pct (hd (zero_fleet 1)) \<le> 100"
  using reachable_zero_server [of 0] zero_fleet_1_facts
    reachable_battery_range [of "zero_server 1" 0 "zero_fleet 1" "hd (zero_fleet 1)"] by simp

text \<open>C2: in every state the server can reach, no pod of any session is faster than
  1000 km/h.\<close>

theorem reachable_speed_cap:
  assumes "reachable srv" "srv_sessions srv sid = Some pods" "p \<in> set pods"
  shows "speed_kmh p \<le> 1000"
  using reachable_fleet_ok [OF assms(1,2)] assms(3) by (auto simp: fleet_ok_def pod_ok_def list_all_iff)

theorem reachable_speed_cap_witness:
  "reachable (zero_server 1) \<and> srv_sessions (zero_server 1) 0 = Some (zero_fleet 1)
   \<and> hd (zero_fleet 1) \<in> set (zero_fleet 1) \<and> speed_kmh (hd (zero_fleet 1)) \<le> 1000"
  using reachable_zero_server [of 0] zero_fleet_1_facts
    reachable_speed_cap [of "zero_server 1" 0 "zero_fleet 1" "hd (zero_fleet 1)"] by simp

text \<open>C5: in every state the server can reach, every session that has pods has exactly
  the three rows Avishkar-1, Avishkar-2, Avishkar-3, in this order: no run adds, drops,
  renames or reorders a row.\<close>

theorem reachable_pod_names:
  assumes "reachable srv" "srv_sessions srv sid = Some pods"
  shows "map pod_name pods = pod_names"
  using reachable_fleet_ok [OF assms] by (simp add: fleet_ok_def)

theorem reachable_pod_names_witness:
  "reachable (zero_server 1) \<and> srv_sessions (zero_server 1) 0 = Some (zero_fleet 1)
   \<and> map pod_name (zero_fleet 1) = pod_names"
  using reachable_zero_server [of 0] zero_fleet_1_facts
    reachable_pod_names [of "zero_server 1" 0 "zero_fleet 1"] by simp

text \<open>C3: the speed has no lower bound: the server reaches a state in which a pod has a
  negative speed (thirteen reruns of one session on a generator that outputs zeros:
  600 km/h at the start, 50 km/h less on each rerun).\<close>

theorem reachable_negative_speed:
  "\<exists>srv pods p. reachable srv \<and> srv_sessions srv 0 = Some pods \<and> p \<in> set pods \<and> speed_kmh p < 0"
proof -
  have "srv_sessions (zero_server 13) 0 = Some (zero_fleet 13)"
    "hd (zero_fleet 13) \<in> set (zero_fleet 13)" "speed_kmh (hd (zero_fleet 13)) < 0"
    by (simp_all add: zero_server_def zero_fleet_def pod_names_def)
  then show ?thesis using reachable_zero_server [of 12] by (auto simp: numeral_eq_Suc)
qed

text \<open>C4: a rerun of a session that has pods applies \<open>update_pod_data\<close> exactly once
  to them, from the generator's current position, whatever the user selected.\<close>

theorem rerun_updates_once:
  assumes "rerun sid inp srv = Some (r, page, srv')" "srv_sessions srv sid = Some pods"
  shows "srv_sessions srv' sid = Some (fst (run_state (update_pod_data pods) (srv_rng srv)))"
proof -
  obtain s where "run_script inp (fresh_run (Some pods) (srv_rng srv)) = Some (r, s)"
      "srv_sessions srv' sid = app_pods s"
    using assms by (auto simp: rerun_def split: option.splits)
  then show ?thesis using run_script_pods_some by simp
qed

theorem rerun_updates_once_witness:
  "\<exists>page. rerun 0 default_input (zero_server 1) = Some (Inr (), page, zero_server 2)
     \<and> srv_sessions (zero_server 1) 0 = Some (zero_fleet 1)
     \<and> srv_sessions (zero_server 2) 0
         = Some (fst (run_state (update_pod_data (zero_fleet 1)) (srv_rng (zero_server 1))))"
proof -
  obtain page where run: "rerun 0 default_input (zero_server 1) = Some (Inr (), page, zero_server 2)"
    using rerun_zero_step_1 by blast
  show ?thesis using run zero_fleet_1_facts(1) rerun_updates_once [OF run zero_fleet_1_facts(1)] by blast
qed

text \<open>C7: the first rerun of a session creates its pods (18 generator outputs: three
  speeds, three batteries, three statuses) and, in the same run, updates them once.\<close>

theorem rerun_first_run:
  assumes "rerun sid inp srv = Some (r, page, srv')" "srv_sessions srv sid = None"
  shows "\<exists>pods. init_pods (srv_rng srv) = Some (Inr pods, sdrop 18 (srv_rng srv))
    \<and> srv_sessions srv' sid = Some (fst (run_state (update_pod_data pods) (sdrop 18 (srv_rng srv))))"
proof -
  obtain s where "run_script inp (fresh_run None (srv_rng srv)) = Some (r, s)"
      "srv_sessions srv' sid = app_pods s"
    using assms by (auto simp: rerun_def split: option.splits)
  then show ?thesis using run_script_pods_none by simp
qed

theorem rerun_first_run_witness:
  "\<exists>page. rerun 0 default_input (server_start (sconst 0)) = Some (Inr (), page, zero_server 1)
     \<and> srv_sessions (server_start (sconst 0)) 0 = None
     \<and> (\<exists>pods. init_pods (srv_rng (server_start (sconst 0)))
              = Some (Inr pods, sdrop 18 (srv_rng (server_start (sconst 0))))
        \<and> srv_sessions (zero_server 1) 0
          = Some (fst (run_state (update_pod_data pods) (sdrop 18 (srv_rng (server_start (sconst 0)))))))"
proof -
  obtain page where run: "rerun 0 default_input (server_start (sconst 0)) = Some (Inr (), page, zero_server 1)"
    using rerun_zero_first [of "server_start (sconst 0)" 0 default_input]
    by (auto simp: server_start_def zero_server_def)
  have "srv_sessions (server_start (sconst 0)) 0 = None" by (simp add: server_start_def)
  then show ?thesis using run rerun_first_run [OF run] by blast
qed

text \<open>C8: the status of a pod never changes within a session (the spec: statuses are
  assigned at creation and immutable during a session): a rerun keeps the status of every
  row, in order.\<close>

theorem rerun_keeps_statuses:
  assumes "rerun sid inp srv = Some (r, page, srv')" "srv_sessions srv sid = Some pods"
  shows "\<exists>pods'. srv_sessions srv' sid = Some pods' \<and> map status pods' = map status pods"
proof -
  obtain s where "run_script inp (fresh_run (Some pods) (srv_rng srv)) = Some (r, s)"
      "srv_sessions srv' sid = app_pods s"
    using assms by (auto simp: rerun_def split: option.splits)
  then show ?thesis using run_script_pods_some update_pod_data_keeps by simp
qed

theorem rerun_keeps_statuses_witness:
  "\<exists>page. rerun 0 default_input (zero_server 1) = Some (Inr (), page, zero_server 2)
     \<and> srv_sessions (zero_server 1) 0 = Some (zero_fleet 1)
     \<and> (\<exists>pods'. srv_sessions (zero_server 2) 0 = Some pods'
         \<and> map status pods' = map status (zero_fleet 1))"
proof -
  obtain page where run: "rerun 0 default_input (zero_server 1) = Some (Inr (), page, zero_server 2)"
    using rerun_zero_step_1 by blast
  show ?thesis using run zero_fleet_1_facts(1) rerun_keeps_statuses [OF run zero_fleet_1_facts(1)] by blast
qed

text \<open>C6: termination of a rerun. Whenever the generator, from every position on, still
  produces an output whose top bit is clear, a rerun of any session, new or not, returns
  normally: the rejection loops of the two \<open>random.choice\<close> calls end, and no call
  raises.\<close>

theorem rerun_returns:
  assumes "often_low (srv_rng srv)"
  shows "\<exists>page srv'. rerun sid inp srv = Some (Inr (), page, srv')"
  using run_script_returns [OF assms, of inp "srv_sessions srv sid"] by (auto simp: rerun_def)

theorem rerun_returns_witness:
  "often_low (srv_rng (server_start (sconst 0)))
   \<and> (\<exists>page srv'. rerun 0 default_input (server_start (sconst 0)) = Some (Inr (), page, srv'))"
proof -
  have h: "often_low (srv_rng (server_start (sconst 0)))"
    using often_low_zero by (simp add: server_start_def)
  show ?thesis using h rerun_returns [OF h] by blast
qed

end
