(* ===== verification/Conformance.thy ===== *)
theory Conformance
  imports Session
begin

text \<open>
  Conformance of the page a run sends: a type discipline on page elements that the
  Streamlit front end relies on, checked against the session's pods. A selectbox shows one
  of its options (or nothing when it has none), a column container has at least one
  column and every column conforms, a bar chart's traces have as many values as labels,
  a table shows rows of the session's pods, and \<open>st.set_page_config\<close> is not called
  after the first element (Streamlit raises \<open>StreamlitAPIException\<close> otherwise).
  The result: every rerun sends the page configuration, the style sheet and the title,
  followed by elements that all conform to the pods the session keeps.
\<close>

section \<open>Conforming elements and computations\<close>

fun wf_element :: "fleet \<Rightarrow> element \<Rightarrow> bool" where
  "wf_element pods (PageConfig t l) = False"
| "wf_element pods (Columns cols) = (cols \<noteq> [] \<and> list_all (list_all (wf_element pods)) cols)"
| "wf_element pods (Selectbox l opts v) = (case v of None \<Rightarrow> opts = [] | Some x \<Rightarrow> x \<in> set opts)"
| "wf_element pods (DataFrame rows cfg h) = (mset rows \<subseteq># mset pods)"
| "wf_element pods (PlotlyChart fig w) =
     list_all (\<lambda>b. length (bar_x b) = length (bar_y b)) (fig_traces fig)"
| "wf_element pods (Markdown t h) = True"
| "wf_element pods (Title t) = True"
| "wf_element pods (Header t) = True"
| "wf_element pods Divider = True"
| "wf_element pods (Metric l v) = True"
| "wf_element pods (Warning t) = True"
| "wf_element pods (Info t) = True"

text \<open>A computation that, started on a session with pods, only appends conforming
  elements to the page, whenever it stops.\<close>

definition page_ok :: "'a st \<Rightarrow> bool" where
  "page_ok m \<longleftrightarrow> (\<forall>s r s' pods. m s = Some (r, s') \<longrightarrow> app_pods s = Some pods \<longrightarrow>
     (\<exists>new. app_page s' = app_page s @ new \<and> list_all (wf_element pods) new))"

named_theorems page_ok_intros "calls of a run that write only conforming elements"

section \<open>The calls of a run write conforming elements\<close>

lemma page_ok_same_page:
  assumes "\<And>s r s'. m s = Some (r, s') \<Longrightarrow> app_page s' = app_page s"
  shows "page_ok m"
  unfolding page_ok_def
proof (intro allI impI)
  fix s r s' and pods :: fleet
  assume "m s = Some (r, s')"
  then have "app_page s' = app_page s @ []" using assms by simp
  then show "\<exists>new. app_page s' = app_page s @ new \<and> list_all (wf_element pods) new" by fastforce
qed

lemma page_ok_return [page_ok_intros]: "page_ok (py_return x)"
  and page_ok_raise [page_ok_intros]: "page_ok (py_raise e)"
  and page_ok_get [page_ok_intros]: "page_ok get_pods"
  and page_ok_with_rng [page_ok_intros]: "page_ok (with_rng g)"
  and page_ok_lift [page_ok_intros]: "page_ok (py_lift v)"
  by (rule page_ok_same_page;
      auto simp: get_pods_def with_rng_def py_lift_def split: option.splits sum.splits)+

lemma page_ok_emit [page_ok_intros]: "(\<And>pods. wf_element pods e) \<Longrightarrow> page_ok (st_emit e)"
  unfolding page_ok_def st_emit_def by auto

lemma page_ok_bind [page_ok_intros]:
  assumes m: "page_ok m" "keeps_pods m" and f: "\<And>x. page_ok (f x)"
  shows "page_ok (py_bind m f)"
  unfolding page_ok_def
proof (intro allI impI)
  fix s :: app and r s'' pods
  assume run: "py_bind m f s = Some (r, s'')" and p: "app_pods s = Some pods"
  obtain v s' where ms: "m s = Some (v, s')"
    using run by (cases "m s") (auto simp: py_bind_apply)
  obtain new where new: "app_page s' = app_page s @ new" "list_all (wf_element pods) new"
    using m(1) ms p unfolding page_ok_def by blast
  have p': "app_pods s' = Some pods" using keeps_podsD [OF m(2) ms] p by simp
  show "\<exists>new. app_page s'' = app_page s @ new \<and> list_all (wf_element pods) new"
  proof (cases v)
    case (Inl e)
    then show ?thesis using run ms new by (auto simp: py_bind_apply)
  next
    case (Inr x)
    then have "f x s' = Some (r, s'')" using run ms by (simp add: py_bind_apply)
    then obtain new' where "app_page s'' = app_page s' @ new'" "list_all (wf_element pods) new'"
      using f p' unfolding page_ok_def by blast
    then show ?thesis using new by auto
  qed
qed

lemma page_ok_if [page_ok_intros]:
  "page_ok m1 \<Longrightarrow> page_ok m2 \<Longrightarrow> page_ok (if b then m1 else m2)"
  by simp

lemma page_ok_selectbox [page_ok_intros]: "page_ok (selectbox l opts i)"
  unfolding selectbox_def
  by (intro page_ok_intros keeps_pods_intros) (auto simp: selectbox_value_def split: option.splits)

lemma page_ok_col_blocks:
  assumes "list_all page_ok bs" "list_all keeps_pods bs"
    "col_blocks bs outer cols s = Some (r, s'')" "app_pods s = Some pods"
  shows "\<exists>cols'. app_page s'' = outer @ [Columns (cols @ cols')]
    \<and> list_all (list_all (wf_element pods)) cols' \<and> (bs \<noteq> [] \<longrightarrow> cols' \<noteq> [])"
  using assms
proof (induction bs arbitrary: cols s r)
  case Nil
  then show ?case by auto
next
  case (Cons b bs)
  let ?s0 = "s\<lparr>app_page := []\<rparr>"
  obtain v s1 where b: "b ?s0 = Some (v, s1)"
    using Cons.prems(3) by (cases "b ?s0") auto
  have p0: "app_pods ?s0 = Some pods" using Cons.prems(4) by simp
  obtain new where new: "app_page s1 = new" "list_all (wf_element pods) new"
    using Cons.prems(1) b p0 unfolding page_ok_def by fastforce
  have kb: "keeps_pods b" using Cons.prems(2) by simp
  have p1: "app_pods s1 = Some pods" using keeps_podsD [OF kb b] p0 by simp
  show ?case
  proof (cases v)
    case (Inl e)
    then show ?thesis using Cons.prems(3) b new by (auto intro!: exI [of _ "[new]"])
  next
    case (Inr x)
    then obtain r' where rest: "col_blocks bs outer (cols @ [new]) s1 = Some (r', s'')"
      using Cons.prems(3) b new(1) by (auto split: option.splits sum.splits)
    obtain cols' where "app_page s'' = outer @ [Columns ((cols @ [new]) @ cols')]"
        "list_all (list_all (wf_element pods)) cols'"
      using Cons.IH [OF _ _ rest p1] Cons.prems(1,2) by auto
    then show ?thesis using new(2) by (auto intro!: exI [of _ "new # cols'"])
  qed
qed

lemma page_ok_columns [page_ok_intros]:
  assumes "bs \<noteq> []" "list_all page_ok bs" "list_all keeps_pods bs"
  shows "page_ok (st_columns bs)"
  unfolding page_ok_def st_columns_def
proof (intro allI impI)
  fix s :: app and r s' pods
  assume run: "col_blocks bs (app_page s) [] s = Some (r, s')" and p: "app_pods s = Some pods"
  obtain cols' where "app_page s' = app_page s @ [Columns ([] @ cols')]"
      "list_all (list_all (wf_element pods)) cols'" "bs \<noteq> [] \<longrightarrow> cols' \<noteq> []"
    using page_ok_col_blocks [OF assms(2,3) run p] by blast
  with assms(1) have "app_page s' = app_page s @ [Columns cols']"
      "list_all (list_all (wf_element pods)) cols'" "cols' \<noteq> []" by simp_all
  then show "\<exists>new. app_page s' = app_page s @ new \<and> list_all (wf_element pods) new"
    by (intro exI [of _ "[Columns cols']"]) simp
qed

section \<open>The parts of a run\<close>

lemma mset_filter_rows: "mset (filter_rows v pods) \<subseteq># mset pods"
  by (auto simp: filter_rows_def multiset_filter_subset split: option.splits)

lemma page_ok_pod_tracker [page_ok_intros]: "page_ok (pod_tracker i j)"
  unfolding page_ok_def
proof (intro allI impI)
  fix s :: app and r s' pods
  assume run: "pod_tracker i j s = Some (r, s')" and p: "app_pods s = Some pods"
  obtain rows where rows: "tracker_table pods i j = Inr rows" using tracker_table_Inr by blast
  let ?new = "[Header ''Pod Tracker'',
          Columns [[Selectbox ''Filter by Status'' (status_filter_options pods)
                      (selectbox_value (status_filter_options pods) i)],
                   [Selectbox ''Sort by'' sort_options (selectbox_value sort_options j)]],
          DataFrame rows tracker_columns True]"
  have s': "app_page s' = app_page s @ ?new" using run pod_tracker_apply [OF p rows] by auto
  have "mset rows \<subseteq># mset pods"
    using rows mset_filter_rows by (auto simp: tracker_table_eq)
  moreover have "status_filter_options pods \<noteq> []" "sort_options \<noteq> []"
    by (simp_all add: status_filter_options_def sort_options_def)
  ultimately have "list_all (wf_element pods) ?new"
    using selectbox_value_in_options [of "status_filter_options pods" i]
      selectbox_value_in_options [of sort_options j] by auto
  with s' show "\<exists>new. app_page s' = app_page s @ new \<and> list_all (wf_element pods) new" by blast
qed

lemma page_ok_route_monitor [page_ok_intros]: "page_ok route_monitor"
  unfolding route_monitor_def
  by (intro page_ok_intros keeps_pods_intros) (simp_all add: page_ok_intros keeps_pods_intros)

lemma page_ok_energy_section [page_ok_intros]: "page_ok energy_section"
  unfolding energy_section_def by (intro page_ok_intros keeps_pods_intros) simp_all

lemma page_ok_pod_comparison [page_ok_intros]: "page_ok (pod_comparison i1 i2)"
  unfolding pod_comparison_def
  by (intro page_ok_intros keeps_pods_intros)
    (simp_all add: page_ok_intros keeps_pods_intros comparison_figure_def comparison_parameters_def)

text \<open>\<open>main()\<close> on a session with pods: after the update, every element conforms to the
  updated pods, which the session keeps.\<close>

lemma main_page:
  assumes "app_pods s = Some pods" "main inp s = Some (r, s')"
  shows "\<exists>pods'. app_pods s' = Some pods'
    \<and> (\<exists>new. app_page s' = app_page s @ new \<and> list_all (wf_element pods') new)"
proof -
  define rest where "rest = (\<lambda>_ :: unit.
     py_bind (pod_tracker (in_status_filter inp) (in_sort_by inp)) (\<lambda>_.
     py_bind (st_emit Divider) (\<lambda>_.
     py_bind (st_columns [route_monitor, energy_section]) (\<lambda>_.
     py_bind (st_emit Divider) (\<lambda>_.
     pod_comparison (in_pod1 inp) (in_pod2 inp))))))"
  have k: "keeps_pods (rest x)" for x
    unfolding rest_def by (intro keeps_pods_intros) (simp add: keeps_pods_intros)
  have w: "page_ok (rest x)" for x
    unfolding rest_def by (intro page_ok_intros keeps_pods_intros) (simp_all add: page_ok_intros keeps_pods_intros)
  let ?pods1 = "fst (run_state (update_pod_data pods) (app_rng s))"
  let ?s1 = "s\<lparr>app_rng := snd (run_state (update_pod_data pods) (app_rng s)), app_pods := Some ?pods1\<rparr>"
  have "update_session s = Some (Inr (), ?s1)"
    using assms(1) by (simp add: update_session_def py_bind_apply get_pods_def with_rng_def
        set_pods_def py_state_apply)
  then have run: "rest () ?s1 = Some (r, s')"
    using assms(2) by (simp add: main_def rest_def py_bind_apply)
  have "app_pods s' = Some ?pods1" using keeps_podsD [OF k run] by simp
  moreover have p1: "app_pods ?s1 = Some ?pods1" by simp
  obtain new where "app_page s' = app_page ?s1 @ new" "list_all (wf_element ?pods1) new"
    using w [of "()", unfolded page_ok_def, rule_format, OF run p1] by blast
  ultimately show ?thesis by auto
qed

lemma init_session_run:
  "\<exists>pods s1. init_session s = Some (Inr (), s1) \<and> app_pods s1 = Some pods \<and> app_page s1 = app_page s"
proof (cases "app_pods s")
  case None
  then show ?thesis using init_session_none [of s] by auto
next
  case (Some pods)
  then show ?thesis using init_session_some [of s pods] by auto
qed

section \<open>Every page a rerun sends conforms\<close>

text \<open>C10: every rerun, of any session, sends a page that starts with the page
  configuration, the style sheet and the title, and whose further elements all conform to
  the pods the session keeps afterwards: selectboxes show one of their options, column
  containers are non-empty, bar traces have as many values as labels, tables show rows of
  the session's pods, and the page configuration is not sent again.\<close>

theorem rerun_page_conforms:
  assumes "rerun sid inp srv = Some (r, page, srv')"
  shows "\<exists>pods body. srv_sessions srv' sid = Some pods \<and> page = header_page @ body
    \<and> list_all (wf_element pods) body"
proof -
  obtain s where run: "run_script inp (fresh_run (srv_sessions srv sid) (srv_rng srv)) = Some (r, s)"
    and page: "page = app_page s" and sess: "srv_sessions srv' sid = app_pods s"
    using assms by (auto simp: rerun_def split: option.splits)
  let ?s0 = "fresh_run (srv_sessions srv sid) (srv_rng srv)\<lparr>app_page := header_page\<rparr>"
  have "py_bind init_session (\<lambda>_. main inp) ?s0 = Some (r, s)"
    using run by (simp add: run_script_def py_bind_apply script_header_apply fresh_run_def)
  moreover obtain pods s1 where i: "init_session ?s0 = Some (Inr (), s1)" "app_pods s1 = Some pods"
      "app_page s1 = header_page"
    using init_session_run [of ?s0] by auto
  ultimately have "main inp s1 = Some (r, s)" by (simp add: py_bind_apply)
  from main_page [OF i(2) this] i(3) sess page show ?thesis by auto
qed

theorem rerun_page_conforms_witness:
  "\<exists>page. rerun 0 default_input (zero_server 1) = Some (Inr (), page, zero_server 2)
     \<and> (\<exists>pods body. srv_sessions (zero_server 2) 0 = Some pods \<and> page = header_page @ body
          \<and> list_all (wf_element pods) body)"
proof -
  obtain page where run: "rerun 0 default_input (zero_server 1) = Some (Inr (), page, zero_server 2)"
    using rerun_zero_step_1 by blast
  show ?thesis using run rerun_page_conforms [OF run] by blast
qed

end
