(* ===== verification/Spec2Isabelle.thy ===== *)
theory Spec2Isabelle
  imports Conformance
begin

text \<open>
  Verification development for the Avishkar Hyperloop dashboard, \<open>src/main.py\<close>: a
  Streamlit script that keeps a table of three simulated pods in each browser session,
  perturbs the telemetry of the Operational pods on every run of the script, and renders
  a filterable, sortable table, a weather panel, an energy tip and a two-pod bar chart.

  \<^bold>\<open>The program and how its parts interact.\<close> Streamlit reruns the whole file on every
  interaction of a session. A run writes the title, creates \<open>st.session_state.pods\<close>
  when the session has none (lines 102--108), and calls \<open>main()\<close> (lines 209--222):
  \<open>update_pod_data\<close> (110--114) mutates the pods, \<open>pod_tracker\<close> (116--137),
  \<open>route_monitor\<close> (139--156), \<open>energy_section\<close> (158--166) and
  \<open>pod_comparison\<close> (168--207) read them and write the page. All random values come
  from the \<open>random\<close> module, whose generator is one per process and shared by all
  sessions; the pods are per session.

  \<^bold>\<open>Theories and what they model.\<close>
  \<^item> \<open>Prelude\<close>: the Python exceptions (\<open>py_error\<close>), the computation type
    \<open>('s, 'a) py = 's \<Rightarrow> ((py_error + 'a) \<times> 's) option\<close> (\<open>None\<close>: does not
    return; \<open>Inl e\<close>: raised \<open>e\<close>, with the state at the raise), \<open>py_bind\<close>, the
    generator state \<open>rng\<close> (the stream of 32-bit outputs still to come), pandas'
    \<open>unique()\<close> as \<open>py_unique\<close>.
  \<^item> \<open>PyRandom\<close>: the CPython library functions the script calls, from
    \<open>Lib/random.py\<close>: \<open>random()\<close> (\<open>random_random\<close>, 53 bits of two outputs),
    \<open>getrandbits\<close>, the rejection loop \<open>_randbelow\<close> (\<open>randbelow_loop\<close>, a
    \<^theory_text>\<open>partial_function (option)\<close>: it returns only when a draw is below
    the bound), \<open>uniform\<close>, \<open>choice\<close> (IndexError on an empty sequence),
    \<open>choices\<close>. The Mersenne Twister itself is not modelled: every stream of outputs
    is allowed, so the results hold for every seed.
  \<^item> \<open>Fleet\<close>: the row record \<open>pod\<close>, the creation \<open>init_pods\<close> (nine draws in
    the order of the dict literal), the loop \<open>update_pod_data\<close> = \<open>update_rows\<close>
    over \<open>update_row\<close> (\<open>State_Monad\<close>: the update never raises nor loops), the
    per-pod reference \<open>update_pod\<close> and the abstract relation \<open>update_allowed\<close>.
  \<^item> \<open>Ui\<close>: the Streamlit runtime the script sees: the \<open>app\<close> record (the
    session's pods, the generator, the page written so far), page \<open>element\<close>s,
    \<open>st_emit\<close>, \<open>selectbox\<close> (the user's choice as an index, defaulting to the
    first option), \<open>st_columns\<close> (the \<open>with col:\<close> blocks), \<open>get_pods\<close>
    (AttributeError when the session has none), and the frame predicate \<open>keeps_pods\<close>.
  \<^item> \<open>Tracker\<close>: \<open>pod_tracker\<close> with \<open>status_filter_options\<close>,
    \<open>filter_rows\<close>, \<open>sort_values_desc\<close> (pandas' \<open>nargsort\<close>: reverse, stable
    ascending sort, reverse) and the table \<open>tracker_table\<close>.
  \<^item> \<open>Widgets\<close>: \<open>route_monitor\<close> (\<open>sample_weather\<close>, the metrics formatted
    by \<open>format_fixed\<close> = Python's \<open>.1f\<close>, the speed-limit warning through
    \<open>py_str_int\<close> = \<open>str\<close>) and \<open>energy_section\<close>.
  \<^item> \<open>Comparison\<close>: \<open>pod_comparison\<close>, \<open>lookup_pod\<close>
    (\<open>pods[pods['Pod Name'] == name].iloc[0]\<close>) and \<open>comparison_figure\<close>.
  \<^item> \<open>Styling\<close>: \<open>st.set_page_config\<close> (lines 11--14) as \<open>set_page_config\<close>
    and the style sheet (lines 17--96) as \<open>style_sheet\<close>, kept line by line
    (\<open>style_lines\<close>), written by \<open>apply_style\<close> with \<open>unsafe_allow_html\<close>.
  \<^item> \<open>Session\<close>: one run of the script \<open>run_script\<close> (\<open>script_header\<close> for
    lines 11--99, \<open>init_session\<close>, \<open>update_session\<close>, \<open>main\<close>), the
    \<open>server\<close> record (the shared generator and every session's pods), \<open>rerun\<close>
    (one interaction of one session) and the inductive \<open>reachable\<close> (the states the
    server reaches from its start).
  \<^item> \<open>Conformance\<close>: \<open>wf_element\<close>, the conditions the front end expects of a page
    element given the session's pods, and \<open>page_ok\<close>, computations that write only
    conforming elements, with one rule per call of the script.

  \<^bold>\<open>What is proved.\<close>
  \<^item> Invariants over every reachable server state, by rule induction on
    \<open>reachable\<close> (\<open>Session\<close>): batteries stay in \<open>[0, 100]\<close>, speeds at most
    1000, and each session holds the three Avishkar pods in order. Speeds have no lower
    bound: a reachable state has a negative speed (\<open>reachable_negative_speed\<close>),
    against the \<open>clamp(\<dots>, 0, 1000)\<close> of the specification.
  \<^item> Each rerun applies the update exactly once, from the generator's current position,
    whatever the user selected, and keeps every row's status; the first run creates the
    pods and updates them in the same run; a rerun returns normally whenever the generator
    keeps producing outputs with a clear top bit (\<open>often_low\<close>). Sessions share
    nothing but the generator by the construction of \<open>rerun\<close> (Streamlit keeps one
    \<open>session_state\<close> per session); this is a modelling choice, not a proved property.
  \<^item> \<open>init_pods\<close>: creation never fails, takes 18 outputs and gives the three pods
    within the ranges of the spec. \<open>update_pod_data\<close>: refinement of
    \<open>update_allowed\<close>, equivalence of the index loop with the per-row traversal, the
    bounds of every Operational row after an update, frozen non-Operational rows,
    non-increasing batteries, and the exact number of generator outputs consumed.
  \<^item> The tracker: pandas' descending sort is the stable descending sort; the table has
    exactly the rows of the selected status, sorted by the selected column, and never
    raises; the page it writes (the spec's two examples are checked as lemmas).
  \<^item> The panels and the comparison: the pages they write, the bounds of the drawn
    weather, exactly when each panel returns (the rejection loop of \<open>random.choice\<close>
    accepts an output), and the IndexError of the lookup.
  \<^item> Conformance (a type property of the output): every page a rerun sends starts with
    the page configuration, the style sheet and the title, and every later element
    conforms to the pods the session keeps; in particular the page configuration is sent
    once and first.
  \<^item> Bounds of one update step: an Operational pod's speed moves by less than 50 km/h
    either way, its battery drops by less than one point and never rises.

  \<^bold>\<open>Bounds and fuel.\<close> No fuel is used: \<open>_randbelow\<close> is a
  \<^theory_text>\<open>partial_function (option)\<close>, and its termination is proved from a
  condition on the stream (one output whose top bits are below the bound); the two
  \<open>choice\<close> calls of a run (over 3 and 4 items) accept any output whose top bit is
  clear, which is the condition \<open>often_low\<close> of the termination theorem. The
  counterexample to a lower speed bound uses the generator that outputs only zeros, on
  which every \<open>uniform(a, b)\<close> returns \<open>a\<close>; thirteen runs suffice.

  \<^bold>\<open>Not modelled.\<close> The unused imports (lines 3, 5--7: \<open>requests\<close>,
  \<open>time\<close>, \<open>datetime\<close>, \<open>plotly.express\<close>; importing them has no effect the
  script depends on); how the browser applies the style sheet; the Mersenne Twister's recurrence (any output
  stream is allowed); rounding of double arithmetic (values are reals). Only
  \<open>random()\<close> itself is exact in doubles; \<open>uniform(a, b) = a + (b - a) * random()\<close>
  and the updates \<open>speed + step\<close>, \<open>battery - drain\<close> are computed here in exact reals,
  whereas in doubles \<open>uniform\<close> can round up to \<open>b\<close> and a step of just under 50 can
  move a speed by exactly 50. The strict upper bounds of \<open>init_pods_spec\<close>,
  \<open>update_pod_data_step_bounds\<close> and \<open>update_allowed\<close> are therefore bounds of the
  real-number model; the closed bounds (batteries in \<open>[0, 100]\<close>, speeds at most 1000)
  hold in doubles too, since \<open>min\<close> and \<open>max\<close> are exact. The stability of the
  tracker's sort is that of numpy's argsort on three rows (see the findings). Plotly's and Streamlit's rendering (the page is
  the list of elements the script writes); concurrent runs of the same process (reruns
  are interleaved one at a time).
\<close>

end
